theory Spec2Isabelle
  imports Complex_Main "HOL-Library.Sublist" "HOL-Library.Product_Lexorder" "HOL-Library.Multiset"
    "HOL-Library.Log_Nat"
begin

section \<open>SQL values and three-valued logic\<close>

text \<open>
  The pipeline lives in the views of \<^verbatim>\<open>migration_v3_teacher_first.sql\<close>. A nullable
  column is an \<open>option\<close> (\<open>None\<close> is SQL NULL); a SQL condition is a \<open>bool option\<close>
  (\<open>None\<close> is UNKNOWN). Keys (UUIDs) are naturals, dates and timestamps are integers
  (day numbers, insertion instants), TEXT is \<open>string\<close>. A value of the column
  \<^verbatim>\<open>score_normalized\<close> (DOUBLE PRECISION) is the rational number that the stored
  double is; the thresholds (NUMERIC) are rationals. Only finite scores are modelled:
  the column type also admits NaN and the infinities.
\<close>

type_synonym sql_bool = "bool option"

definition sql_lt :: "('a::linorder) option \<Rightarrow> 'a option \<Rightarrow> sql_bool" where
  "sql_lt a b = (case a of None \<Rightarrow> None | Some x \<Rightarrow> (case b of None \<Rightarrow> None | Some y \<Rightarrow> Some (x < y)))"

definition sql_gt :: "('a::linorder) option \<Rightarrow> 'a option \<Rightarrow> sql_bool" where
  "sql_gt a b = sql_lt b a"

definition sql_le :: "('a::linorder) option \<Rightarrow> 'a option \<Rightarrow> sql_bool" where
  "sql_le a b = (case a of None \<Rightarrow> None | Some x \<Rightarrow> (case b of None \<Rightarrow> None | Some y \<Rightarrow> Some (x \<le> y)))"

definition sql_ge :: "('a::linorder) option \<Rightarrow> 'a option \<Rightarrow> sql_bool" where
  "sql_ge a b = sql_le b a"

definition sql_eq :: "'a option \<Rightarrow> 'a option \<Rightarrow> sql_bool" where
  "sql_eq a b = (case a of None \<Rightarrow> None | Some x \<Rightarrow> (case b of None \<Rightarrow> None | Some y \<Rightarrow> Some (x = y)))"

text \<open>
  Arithmetic on DOUBLE PRECISION is IEEE 754 binary64: the result of an operation is the
  exact result rounded to the nearest double, a tie going to the double whose last
  mantissa bit is zero. A double is \<open>m * 2 ^ q\<close> for integers \<open>m\<close> and \<open>q\<close> with
  \<open>\<bar>m\<bar> < 2 ^ 53\<close> and \<open>- 1074 \<le> q\<close>. For \<open>x > 0\<close>, \<open>float8_exponent x\<close> is the
  \<open>e\<close> with \<open>2 ^ e \<le> x < 2 ^ (e + 1)\<close>, and \<open>float8_ulp x\<close> is the spacing of the doubles
  around \<open>x\<close>: \<open>2 ^ (e - 52)\<close>, and \<open>2 ^ (- 1074)\<close> in the subnormal range.
  \<open>float8_round\<close> is also how a decimal literal such as 67.9 becomes the stored double.
  A result beyond the largest double makes PostgreSQL raise an overflow error; scores on
  the normalized scale are far from it, and the model does not round to infinity.
\<close>

definition float8_exponent :: "rat \<Rightarrow> int" where
  "float8_exponent x =
     (let k = bitlen (fst (quotient_of x)) - bitlen (snd (quotient_of x))
      in if 2 powi k \<le> x then k else k - 1)"

definition float8_ulp :: "rat \<Rightarrow> rat" where
  "float8_ulp x = 2 powi (max (float8_exponent x - 52) (- 1074))"

definition round_half_even :: "rat \<Rightarrow> int" where
  "round_half_even y =
     (if y - of_int \<lfloor>y\<rfloor> < 1 / 2 then \<lfloor>y\<rfloor>
      else if 1 / 2 < y - of_int \<lfloor>y\<rfloor> then \<lfloor>y\<rfloor> + 1
      else if even \<lfloor>y\<rfloor> then \<lfloor>y\<rfloor> else \<lfloor>y\<rfloor> + 1)"

definition float8_round :: "rat \<Rightarrow> rat" where
  "float8_round x =
     (if x = 0 then 0
      else sgn x * (of_int (round_half_even (\<bar>x\<bar> / float8_ulp \<bar>x\<bar>)) * float8_ulp \<bar>x\<bar>))"

text \<open>The operator \<^verbatim>\<open>-\<close> on two doubles (\<^verbatim>\<open>float8mi\<close>).\<close>

definition float8_mi :: "rat \<Rightarrow> rat \<Rightarrow> rat" where
  "float8_mi x y = float8_round (x - y)"

definition sql_minus :: "rat option \<Rightarrow> rat option \<Rightarrow> rat option" where
  "sql_minus a b =
     (case a of None \<Rightarrow> None | Some x \<Rightarrow> (case b of None \<Rightarrow> None | Some y \<Rightarrow> Some (float8_mi x y)))"

definition sql_is_null :: "'a option \<Rightarrow> sql_bool" where
  "sql_is_null a = Some (a = None)"

definition sql_is_not_null :: "'a option \<Rightarrow> sql_bool" where
  "sql_is_not_null a = Some (a \<noteq> None)"

text \<open>AND and OR of SQL (Kleene): FALSE AND UNKNOWN is FALSE, TRUE OR UNKNOWN is TRUE.\<close>

definition sql_and :: "sql_bool \<Rightarrow> sql_bool \<Rightarrow> sql_bool" where
  "sql_and p q =
     (if p = Some False \<or> q = Some False then Some False
      else if p = Some True \<and> q = Some True then Some True
      else None)"

definition sql_or :: "sql_bool \<Rightarrow> sql_bool \<Rightarrow> sql_bool" where
  "sql_or p q =
     (if p = Some True \<or> q = Some True then Some True
      else if p = Some False \<and> q = Some False then Some False
      else None)"

text \<open>
  A WHERE clause, a FILTER clause and a join's ON clause keep a row only when the
  condition is TRUE.
\<close>

definition holds :: "sql_bool \<Rightarrow> bool" where
  "holds p = (p = Some True)"

text \<open>
  \<^verbatim>\<open>CASE WHEN c1 THEN v1 WHEN c2 THEN v2 ... ELSE d END\<close>: the first branch whose
  condition is TRUE wins; UNKNOWN falls through like FALSE.
\<close>

fun case_when :: "(sql_bool \<times> 'a) list \<Rightarrow> 'a \<Rightarrow> 'a" where
  "case_when [] d = d"
| "case_when ((c, v) # bs) d = (if holds c then v else case_when bs d)"

section \<open>Tiering: the two CASE columns of \<^verbatim>\<open>v_support_status\<close>\<close>

datatype support_status = Status_Unknown | Needs_Support | Monitor | On_Track

datatype tier = Unknown | Intensive | Strategic | Core

text \<open>The TEXT values the view writes for the two columns.\<close>

fun support_status_text :: "support_status \<Rightarrow> string" where
  "support_status_text Status_Unknown = ''Unknown''"
| "support_status_text Needs_Support = ''Needs Support''"
| "support_status_text Monitor = ''Monitor''"
| "support_status_text On_Track = ''On Track''"

fun tier_text :: "tier \<Rightarrow> string" where
  "tier_text Unknown = ''Unknown''"
| "tier_text Intensive = ''Intensive''"
| "tier_text Strategic = ''Strategic''"
| "tier_text Core = ''Core''"

definition support_status_of :: "rat option \<Rightarrow> rat option \<Rightarrow> rat option \<Rightarrow> support_status" where
  "support_status_of latest_score support_threshold benchmark_threshold =
     case_when
       [(sql_is_null latest_score, Status_Unknown),
        (sql_and (sql_is_not_null support_threshold) (sql_lt latest_score support_threshold), Needs_Support),
        (sql_and (sql_is_not_null benchmark_threshold) (sql_lt latest_score benchmark_threshold), Monitor)]
       On_Track"

definition tier_of :: "rat option \<Rightarrow> rat option \<Rightarrow> rat option \<Rightarrow> tier" where
  "tier_of latest_score support_threshold benchmark_threshold =
     case_when
       [(sql_is_null latest_score, Unknown),
        (sql_and (sql_is_not_null support_threshold) (sql_lt latest_score support_threshold), Intensive),
        (sql_and (sql_is_not_null benchmark_threshold) (sql_lt latest_score benchmark_threshold), Strategic)]
       Core"

text \<open>
  The ordering of the tiers the specification uses for monotonicity:
  Intensive below Strategic below Core. Unknown is outside that ordering and is
  placed above Core only to make the function total.
\<close>

fun tier_rank :: "tier \<Rightarrow> nat" where
  "tier_rank Intensive = 0"
| "tier_rank Strategic = 1"
| "tier_rank Core = 2"
| "tier_rank Unknown = 3"

section \<open>Priority score and reasons: \<^verbatim>\<open>v_priority_students\<close>\<close>

datatype trend = No_Data | Improving | Declining | Stable

fun trend_text :: "trend \<Rightarrow> string" where
  "trend_text No_Data = ''No Data''"
| "trend_text Improving = ''Improving''"
| "trend_text Declining = ''Declining''"
| "trend_text Stable = ''Stable''"

text \<open>\<^verbatim>\<open>x IN (a, b)\<close> is \<^verbatim>\<open>x = a OR x = b\<close>.\<close>

fun sql_in :: "'a option \<Rightarrow> 'a option list \<Rightarrow> sql_bool" where
  "sql_in x [] = Some False"
| "sql_in x (v # vs) = sql_or (sql_eq x v) (sql_in x vs)"

text \<open>
  The column \<^verbatim>\<open>priority_score\<close>. \<^verbatim>\<open>ss.tier\<close> and
  \<^verbatim>\<open>ss.has_active_intervention\<close> are never null in \<^verbatim>\<open>v_support_status\<close> (a CASE
  with an ELSE, a COALESCE); \<^verbatim>\<open>g.trend\<close> comes through a LEFT JOIN and
  \<^verbatim>\<open>ss.days_since_assessment\<close> from a nullable date, so both may be null.
\<close>

definition priority_score :: "tier \<Rightarrow> trend option \<Rightarrow> int option \<Rightarrow> bool \<Rightarrow> int" where
  "priority_score tier trend days_since_assessment has_active_intervention =
     case_when [(sql_eq (Some tier) (Some Intensive), 5), (sql_eq (Some tier) (Some Strategic), 3)] 0
     + case_when [(sql_eq trend (Some Declining), 3), (sql_eq trend (Some Stable), 1)] 0
     + case_when [(sql_gt days_since_assessment (Some 90), 2), (sql_gt days_since_assessment (Some 60), 1)] 0
     + case_when
         [(sql_and (sql_eq (Some has_active_intervention) (Some False))
             (sql_in (Some tier) [Some Intensive, Some Strategic]), 2)] 0"

text \<open>
  \<^verbatim>\<open>CONCAT_WS(sep, a1, ..., an)\<close> skips the null arguments and puts the separator
  between the others. \<^verbatim>\<open>TRIM(BOTH chars FROM s)\<close> removes from both ends of \<open>s\<close> the
  longest run of characters that occur in \<open>chars\<close>.
\<close>

fun join_with :: "string \<Rightarrow> string list \<Rightarrow> string" where
  "join_with sep [] = []"
| "join_with sep [x] = x"
| "join_with sep (x # y # ys) = x @ sep @ join_with sep (y # ys)"

definition concat_ws :: "string \<Rightarrow> string option list \<Rightarrow> string" where
  "concat_ws sep args = join_with sep (List.map_filter (\<lambda>a. a) args)"

definition trim_both :: "string \<Rightarrow> string \<Rightarrow> string" where
  "trim_both chars s = rev (dropWhile (\<lambda>c. c \<in> set chars) (rev (dropWhile (\<lambda>c. c \<in> set chars) s)))"

text \<open>A CASE without ELSE is null when no branch matches.\<close>

definition reasons :: "tier \<Rightarrow> trend option \<Rightarrow> int option \<Rightarrow> bool \<Rightarrow> string" where
  "reasons tier trend days_since_assessment has_active_intervention =
     trim_both '' |''
       (concat_ws '' | ''
          [case_when
             [(sql_eq (Some tier) (Some Intensive), Some ''Intensive tier''),
              (sql_eq (Some tier) (Some Strategic), Some ''Strategic tier'')] None,
           case_when [(sql_eq trend (Some Declining), Some ''Declining growth trend'')] None,
           case_when
             [(sql_and (sql_eq (Some has_active_intervention) (Some False))
                 (sql_in (Some tier) [Some Intensive, Some Strategic]),
               Some ''No active intervention'')] None,
           case_when [(sql_gt days_since_assessment (Some 90), Some ''Overdue assessment (>90d)'')] None])"

text \<open>
  The reason strings of the conditions that fired, in the display order of the view's
  argument list; this is the list the specification describes.
\<close>

definition fired_reasons :: "tier \<Rightarrow> trend option \<Rightarrow> int option \<Rightarrow> bool \<Rightarrow> string list" where
  "fired_reasons tier trend days_since_assessment has_active_intervention =
     map snd (filter fst
       [(tier = Intensive, ''Intensive tier''),
        (tier = Strategic, ''Strategic tier''),
        (trend = Some Declining, ''Declining growth trend''),
        (\<not> has_active_intervention \<and> (tier = Intensive \<or> tier = Strategic),
           ''No active intervention''),
        ((\<exists>d. days_since_assessment = Some d \<and> 90 < d), ''Overdue assessment (>90d)'')])"

section \<open>Tables\<close>

text \<open>
  The columns the views read. A column declared NOT NULL in the schema
  (\<^verbatim>\<open>assessment_type\<close>, \<^verbatim>\<open>assessment_period\<close>, \<^verbatim>\<open>school_year\<close> of an assessment,
  the five keys of a threshold, the primary keys) has a plain type, every other column
  an \<open>option\<close>. A table is the list of its rows.
\<close>

record enrollment =
  e_enrollment_id :: nat
  e_student_uuid :: "nat option"
  e_school_year :: "string option"
  e_grade_level :: "string option"
  e_class_name :: "string option"
  e_teacher_name :: "string option"

record student_core =
  s_student_uuid :: nat
  s_display_name :: "string option"

record assessment =
  a_enrollment_id :: "nat option"
  a_subject_area :: "string option"
  a_assessment_type :: string
  a_assessment_period :: string
  a_school_year :: string
  a_score_normalized :: "rat option"
  a_effective_date :: "int option"
  a_created_at :: "int option"

record intervention =
  i_enrollment_id :: "nat option"
  i_subject_area :: "string option"
  i_status :: "string option"

record benchmark_threshold =
  t_subject_area :: string
  t_assessment_type :: string
  t_grade_level :: string
  t_assessment_period :: string
  t_school_year :: string
  t_support_threshold :: "rat option"
  t_benchmark_threshold :: "rat option"

record database =
  student_enrollments :: "enrollment list"
  students_core :: "student_core list"
  assessments :: "assessment list"
  interventions :: "intervention list"
  benchmark_thresholds :: "benchmark_threshold list"

section \<open>Relational operators\<close>

text \<open>
  \<^verbatim>\<open>GROUP BY\<close>, \<^verbatim>\<open>PARTITION BY\<close> and \<^verbatim>\<open>DISTINCT ON\<close>: the distinct keys, each with its
  rows; nulls of a key fall into one group. \<^verbatim>\<open>LEFT JOIN\<close>: the rows of the right side
  that satisfy the ON clause, or one null row when there is none.
\<close>

definition group_by :: "('a \<Rightarrow> 'k) \<Rightarrow> 'a list \<Rightarrow> ('k \<times> 'a list) list" where
  "group_by key rows = map (\<lambda>k. (k, filter (\<lambda>r. key r = k) rows)) (remdups (map key rows))"

definition left_join :: "('b \<Rightarrow> bool) \<Rightarrow> 'b list \<Rightarrow> 'b option list" where
  "left_join on rows = (case filter on rows of [] \<Rightarrow> [None] | m # ms \<Rightarrow> map Some (m # ms))"

text \<open>
  \<^verbatim>\<open>ORDER BY effective_date DESC NULLS LAST, created_at DESC\<close> as a relation:
  \<open>more_recent x y\<close> when \<open>x\<close> must come before \<open>y\<close>. A descending column puts nulls
  first unless told otherwise, so a null \<^verbatim>\<open>created_at\<close> wins a tie on the date.
\<close>

definition created_later :: "assessment \<Rightarrow> assessment \<Rightarrow> bool" where
  "created_later x y =
     (case a_created_at y of None \<Rightarrow> False
      | Some cy \<Rightarrow> (case a_created_at x of None \<Rightarrow> True | Some cx \<Rightarrow> cy < cx))"

definition more_recent :: "assessment \<Rightarrow> assessment \<Rightarrow> bool" where
  "more_recent x y =
     (case a_effective_date x of
        None \<Rightarrow> a_effective_date y = None \<and> created_later x y
      | Some dx \<Rightarrow>
          (case a_effective_date y of None \<Rightarrow> True
           | Some dy \<Rightarrow> dy < dx \<or> (dx = dy \<and> created_later x y)))"

text \<open>
  PostgreSQL leaves open in which order it returns rows that tie on both columns. The
  views therefore take the ordering as a parameter \<open>ord\<close>: any function that returns
  the rows it is given, each as often as it was given, arranged so that no later row is
  more recent than an earlier one.
\<close>

definition admissible_order :: "(assessment list \<Rightarrow> assessment list) \<Rightarrow> bool" where
  "admissible_order ord =
     (\<forall>rows. mset (ord rows) = mset rows \<and> sorted_wrt (\<lambda>x y. \<not> more_recent y x) (ord rows))"

text \<open>
  One such ordering, used in the examples: a stable sort on a key that is compared
  lexicographically. A larger date sorts first and a null date last; a null
  \<^verbatim>\<open>created_at\<close> sorts first, then the larger instant. Tied rows keep the order of the
  list.
\<close>

definition desc_nulls_last :: "int option \<Rightarrow> nat \<times> int" where
  "desc_nulls_last x = (case x of None \<Rightarrow> (1, 0) | Some v \<Rightarrow> (0, - v))"

definition desc_nulls_first :: "int option \<Rightarrow> nat \<times> int" where
  "desc_nulls_first x = (case x of None \<Rightarrow> (0, 0) | Some v \<Rightarrow> (1, - v))"

definition recency_key :: "assessment \<Rightarrow> (nat \<times> int) \<times> (nat \<times> int)" where
  "recency_key a = (desc_nulls_last (a_effective_date a), desc_nulls_first (a_created_at a))"

definition order_by_recency :: "assessment list \<Rightarrow> assessment list" where
  "order_by_recency rows = sort_key recency_key rows"

text \<open>\<^verbatim>\<open>MAX\<close> skips nulls and is null over no value.\<close>

fun sql_max :: "('a::linorder) option list \<Rightarrow> 'a option" where
  "sql_max [] = None"
| "sql_max (None # vs) = sql_max vs"
| "sql_max (Some v # vs) = (case sql_max vs of None \<Rightarrow> Some v | Some m \<Rightarrow> Some (max v m))"

section \<open>\<^verbatim>\<open>v_growth_last_two\<close>\<close>

text \<open>
  The CTE \<^verbatim>\<open>ranked\<close> numbers the rows of each partition from 1 in the ORDER BY (a row is
  paired with its \<^verbatim>\<open>rn\<close>); \<^verbatim>\<open>pairs\<close> keeps \<^verbatim>\<open>rn <= 2\<close> and groups again. The
  scores are doubles, so \<^verbatim>\<open>latest_score - prior_score\<close> is the rounded difference.
\<close>

definition growth_key :: "assessment \<Rightarrow> nat option \<times> string option \<times> string" where
  "growth_key a = (a_enrollment_id a, a_subject_area a, a_school_year a)"

definition ranked :: "(assessment list \<Rightarrow> assessment list) \<Rightarrow> assessment list \<Rightarrow> (assessment \<times> nat) list" where
  "ranked ord rows =
     concat (map (\<lambda>(k, g). zip (ord g) [1 ..< Suc (length g)])
       (group_by growth_key
          (filter (\<lambda>a. holds (sql_and (sql_is_not_null (a_enrollment_id a))
                                        (sql_is_not_null (a_score_normalized a)))) rows)))"

record pair_row =
  p_enrollment_id :: "nat option"
  p_subject_area :: "string option"
  p_school_year :: string
  p_latest_score :: "rat option"
  p_prior_score :: "rat option"

definition pairs :: "(assessment list \<Rightarrow> assessment list) \<Rightarrow> assessment list \<Rightarrow> pair_row list" where
  "pairs ord rows =
     map (\<lambda>((eid, subject, year), g).
            \<lparr>p_enrollment_id = eid, p_subject_area = subject, p_school_year = year,
             p_latest_score = sql_max (map (\<lambda>(a, rn). a_score_normalized a) (filter (\<lambda>(a, rn). rn = 1) g)),
             p_prior_score = sql_max (map (\<lambda>(a, rn). a_score_normalized a) (filter (\<lambda>(a, rn). rn = 2) g))\<rparr>)
       (group_by (\<lambda>(a, rn). growth_key a)
          (filter (\<lambda>(a, rn). rn \<le> 2) (ranked ord rows)))"

definition trend_of :: "rat option \<Rightarrow> rat option \<Rightarrow> trend" where
  "trend_of latest_score prior_score =
     case_when
       [(sql_is_null prior_score, No_Data),
        (sql_ge (sql_minus latest_score prior_score) (Some 2), Improving),
        (sql_le (sql_minus latest_score prior_score) (Some (- 2)), Declining)]
       Stable"

record growth_row =
  g_enrollment_id :: "nat option"
  g_subject_area :: "string option"
  g_school_year :: string
  g_latest_score :: "rat option"
  g_prior_score :: "rat option"
  g_growth :: "rat option"
  g_trend :: trend

definition v_growth_last_two :: "(assessment list \<Rightarrow> assessment list) \<Rightarrow> assessment list \<Rightarrow> growth_row list" where
  "v_growth_last_two ord rows =
     map (\<lambda>p. \<lparr>g_enrollment_id = p_enrollment_id p, g_subject_area = p_subject_area p,
                g_school_year = p_school_year p, g_latest_score = p_latest_score p,
                g_prior_score = p_prior_score p,
                g_growth = sql_minus (p_latest_score p) (p_prior_score p),
                g_trend = trend_of (p_latest_score p) (p_prior_score p)\<rparr>)
       (pairs ord rows)"

text \<open>
  The rows of one partition of \<^verbatim>\<open>ranked\<close>: the assessments of an (enrollment, subject,
  year) that pass its WHERE clause.
\<close>

definition scored_partition :: "assessment list \<Rightarrow> nat option \<times> string option \<times> string \<Rightarrow> assessment list" where
  "scored_partition rows k =
     filter (\<lambda>a. growth_key a = k \<and> a_enrollment_id a \<noteq> None \<and> a_score_normalized a \<noteq> None) rows"

section \<open>\<^verbatim>\<open>v_teacher_roster\<close>\<close>

text \<open>
  The CTE \<^verbatim>\<open>latest\<close>: \<^verbatim>\<open>SELECT DISTINCT ON (enrollment_id, subject_area)\<close> keeps,
  of every group, the first row in the ORDER BY.
\<close>

record latest_row =
  l_enrollment_id :: "nat option"
  l_subject_area :: "string option"
  l_latest_score :: "rat option"
  l_latest_date :: "int option"
  l_latest_period :: string
  l_school_year :: string
  l_latest_type :: string

definition latest_key :: "assessment \<Rightarrow> nat option \<times> string option" where
  "latest_key a = (a_enrollment_id a, a_subject_area a)"

definition latest_of :: "assessment \<Rightarrow> latest_row" where
  "latest_of a =
     \<lparr>l_enrollment_id = a_enrollment_id a, l_subject_area = a_subject_area a,
      l_latest_score = a_score_normalized a, l_latest_date = a_effective_date a,
      l_latest_period = a_assessment_period a, l_school_year = a_school_year a,
      l_latest_type = a_assessment_type a\<rparr>"

definition latest :: "(assessment list \<Rightarrow> assessment list) \<Rightarrow> assessment list \<Rightarrow> latest_row list" where
  "latest ord rows =
     concat (map (\<lambda>(k, g). case ord g of [] \<Rightarrow> [] | a # others \<Rightarrow> [latest_of a])
       (group_by latest_key (filter (\<lambda>a. holds (sql_is_not_null (a_enrollment_id a))) rows)))"

text \<open>
  \<^verbatim>\<open>LOWER\<close> on the letters A to Z (other characters are left alone: the model's
  characters are bytes) and \<^verbatim>\<open>TRIM\<close>, which removes blanks at both ends. Both
  give null on null.
\<close>

definition lower_char :: "char \<Rightarrow> char" where
  "lower_char c = (if 65 \<le> (of_char c :: nat) \<and> (of_char c :: nat) \<le> 90 then char_of (of_char c + 32 :: nat) else c)"

definition sql_lower :: "string option \<Rightarrow> string option" where
  "sql_lower s = map_option (map lower_char) s"

definition sql_trim :: "string option \<Rightarrow> string option" where
  "sql_trim s = map_option (trim_both '' '') s"

record active_intervention_row =
  ai_enrollment_id :: "nat option"
  ai_has_active_intervention :: bool

definition active_intervention :: "intervention list \<Rightarrow> active_intervention_row list" where
  "active_intervention rows =
     map (\<lambda>(eid, g). \<lparr>ai_enrollment_id = eid, ai_has_active_intervention = True\<rparr>)
       (group_by i_enrollment_id
          (filter (\<lambda>i. holds
             (sql_and (sql_is_not_null (i_enrollment_id i))
                (sql_or (sql_is_null (i_status i))
                   (sql_in (sql_lower (sql_trim (i_status i)))
                      [Some ''active'', Some ''in progress'', Some ''ongoing'']))))
             rows))"

definition sql_coalesce :: "'a option \<Rightarrow> 'a \<Rightarrow> 'a" where
  "sql_coalesce a d = (case a of None \<Rightarrow> d | Some v \<Rightarrow> v)"

record roster_row =
  r_enrollment_id :: nat
  r_student_uuid :: "nat option"
  r_display_name :: "string option"
  r_school_year :: "string option"
  r_grade_level :: "string option"
  r_class_name :: "string option"
  r_teacher_name :: "string option"
  r_subject_area :: "string option"
  r_latest_score :: "rat option"
  r_latest_date :: "int option"
  r_latest_period :: "string option"
  r_latest_type :: "string option"
  r_days_since_assessment :: "int option"
  r_has_active_intervention :: bool

text \<open>
  One output row of the view, from an enrollment, its person, the joined row of
  \<^verbatim>\<open>latest\<close> (null when the LEFT JOIN found none) and the joined row of
  \<^verbatim>\<open>active_intervention\<close>. \<^verbatim>\<open>CURRENT_DATE\<close> is a parameter.
\<close>

definition roster_row_of ::
  "int \<Rightarrow> enrollment \<Rightarrow> student_core \<Rightarrow> latest_row option \<Rightarrow> active_intervention_row option \<Rightarrow> roster_row" where
  "roster_row_of current_date e s l ai =
     \<lparr>r_enrollment_id = e_enrollment_id e, r_student_uuid = e_student_uuid e,
      r_display_name = s_display_name s, r_school_year = e_school_year e,
      r_grade_level = e_grade_level e, r_class_name = e_class_name e,
      r_teacher_name = e_teacher_name e,
      r_subject_area = Option.bind l l_subject_area,
      r_latest_score = Option.bind l l_latest_score,
      r_latest_date = Option.bind l l_latest_date,
      r_latest_period = map_option l_latest_period l,
      r_latest_type = map_option l_latest_type l,
      r_days_since_assessment = map_option (\<lambda>d. current_date - d) (Option.bind l l_latest_date),
      r_has_active_intervention = sql_coalesce (map_option ai_has_active_intervention ai) False\<rparr>"

definition v_teacher_roster ::
  "(assessment list \<Rightarrow> assessment list) \<Rightarrow> int \<Rightarrow> database \<Rightarrow> roster_row list" where
  "v_teacher_roster ord current_date db =
     [roster_row_of current_date e s l ai.
        e \<leftarrow> student_enrollments db,
        s \<leftarrow> filter (\<lambda>s. holds (sql_eq (Some (s_student_uuid s)) (e_student_uuid e))) (students_core db),
        l \<leftarrow> left_join
               (\<lambda>l. holds (sql_and (sql_eq (l_enrollment_id l) (Some (e_enrollment_id e)))
                                   (sql_eq (Some (l_school_year l)) (e_school_year e))))
               (latest ord (assessments db)),
        ai \<leftarrow> left_join (\<lambda>ai. holds (sql_eq (ai_enrollment_id ai) (Some (e_enrollment_id e))))
               (active_intervention (interventions db))]"

section \<open>\<^verbatim>\<open>v_support_status\<close>\<close>

record support_row =
  ss_enrollment_id :: nat
  ss_student_uuid :: "nat option"
  ss_display_name :: "string option"
  ss_school_year :: "string option"
  ss_grade_level :: "string option"
  ss_class_name :: "string option"
  ss_teacher_name :: "string option"
  ss_subject_area :: "string option"
  ss_latest_score :: "rat option"
  ss_latest_date :: "int option"
  ss_latest_period :: "string option"
  ss_days_since_assessment :: "int option"
  ss_has_active_intervention :: bool
  ss_support_threshold :: "rat option"
  ss_benchmark_threshold :: "rat option"
  ss_support_status :: support_status
  ss_tier :: tier

definition threshold_matches :: "roster_row \<Rightarrow> benchmark_threshold \<Rightarrow> bool" where
  "threshold_matches r t =
     holds (sql_and (sql_and (sql_and (sql_and
       (sql_eq (Some (t_subject_area t)) (r_subject_area r))
       (sql_eq (Some (t_assessment_type t)) (r_latest_type r)))
       (sql_eq (Some (t_grade_level t)) (r_grade_level r)))
       (sql_eq (Some (t_assessment_period t)) (r_latest_period r)))
       (sql_eq (Some (t_school_year t)) (r_school_year r)))"

definition support_row_of :: "roster_row \<Rightarrow> benchmark_threshold option \<Rightarrow> support_row" where
  "support_row_of r t =
     \<lparr>ss_enrollment_id = r_enrollment_id r, ss_student_uuid = r_student_uuid r,
      ss_display_name = r_display_name r, ss_school_year = r_school_year r,
      ss_grade_level = r_grade_level r, ss_class_name = r_class_name r,
      ss_teacher_name = r_teacher_name r, ss_subject_area = r_subject_area r,
      ss_latest_score = r_latest_score r, ss_latest_date = r_latest_date r,
      ss_latest_period = r_latest_period r,
      ss_days_since_assessment = r_days_since_assessment r,
      ss_has_active_intervention = r_has_active_intervention r,
      ss_support_threshold = Option.bind t t_support_threshold,
      ss_benchmark_threshold = Option.bind t t_benchmark_threshold,
      ss_support_status =
        support_status_of (r_latest_score r) (Option.bind t t_support_threshold)
          (Option.bind t t_benchmark_threshold),
      ss_tier =
        tier_of (r_latest_score r) (Option.bind t t_support_threshold)
          (Option.bind t t_benchmark_threshold)\<rparr>"

definition support_rows :: "benchmark_threshold list \<Rightarrow> roster_row \<Rightarrow> support_row list" where
  "support_rows thresholds r = map (support_row_of r) (left_join (threshold_matches r) thresholds)"

definition v_support_status ::
  "(assessment list \<Rightarrow> assessment list) \<Rightarrow> int \<Rightarrow> database \<Rightarrow> support_row list" where
  "v_support_status ord current_date db =
     concat (map (support_rows (benchmark_thresholds db)) (v_teacher_roster ord current_date db))"

section \<open>\<^verbatim>\<open>v_teacher_kpis\<close>\<close>

text \<open>
  \<^verbatim>\<open>ROUND(x, 1)\<close> rounds halves away from zero. The NUMERIC division before it is
  taken as exact.
\<close>

definition sql_round1 :: "rat \<Rightarrow> rat" where
  "sql_round1 x =
     (if 0 \<le> x then of_int \<lfloor>x * 10 + 1 / 2\<rfloor> / 10 else - (of_int \<lfloor>- x * 10 + 1 / 2\<rfloor> / 10))"

text \<open>\<^verbatim>\<open>ROUND(100.0 * part / NULLIF(total, 0), 1)\<close>: null when the total is zero.\<close>

definition percent_of :: "int \<Rightarrow> int \<Rightarrow> rat option" where
  "percent_of part whole =
     (if whole = 0 then None else Some (sql_round1 (100 * of_int part / of_int whole)))"

text \<open>
  \<^verbatim>\<open>PERCENTILE_CONT(f) WITHIN GROUP (ORDER BY x)\<close> over the values the FILTER
  kept: null on no value; otherwise the value at position \<open>f * (n - 1)\<close> of the sorted
  values, interpolated linearly between the two neighbours when the position is not whole.
\<close>

definition percentile_cont :: "rat \<Rightarrow> int list \<Rightarrow> rat option" where
  "percentile_cont f vals =
     (let sorted_vals = sort vals; n = length sorted_vals in
      if n = 0 then None
      else
        let pos = f * of_nat (n - 1);
            first_row = nat \<lfloor>pos\<rfloor>;
            second_row = nat \<lceil>pos\<rceil>
        in if first_row = second_row then Some (of_int (sorted_vals ! first_row))
           else Some (of_int (sorted_vals ! first_row)
                      + (pos - of_nat first_row)
                        * (of_int (sorted_vals ! second_row) - of_int (sorted_vals ! first_row))))"

definition sql_count_filter :: "('a \<Rightarrow> sql_bool) \<Rightarrow> 'a list \<Rightarrow> int" where
  "sql_count_filter cond rows = int (length (filter (\<lambda>r. holds (cond r)) rows))"

record kpi_row =
  k_teacher_name :: "string option"
  k_school_year :: "string option"
  k_subject_area :: "string option"
  k_total_students :: int
  k_assessed_students :: int
  k_assessed_pct :: "rat option"
  k_overdue_count :: int
  k_overdue_pct :: "rat option"
  k_median_days_since :: "rat option"

definition kpi_key :: "roster_row \<Rightarrow> string option \<times> string option \<times> string option" where
  "kpi_key r = (r_teacher_name r, r_school_year r, r_subject_area r)"

text \<open>The aggregates of one group of the GROUP BY.\<close>

definition kpi_row_of :: "string option \<times> string option \<times> string option \<Rightarrow> roster_row list \<Rightarrow> kpi_row" where
  "kpi_row_of k g =
     \<lparr>k_teacher_name = fst k, k_school_year = fst (snd k), k_subject_area = snd (snd k),
      k_total_students = int (length g),
      k_assessed_students = sql_count_filter (\<lambda>r. sql_is_not_null (r_latest_score r)) g,
      k_assessed_pct =
        percent_of (sql_count_filter (\<lambda>r. sql_is_not_null (r_latest_score r)) g) (int (length g)),
      k_overdue_count = sql_count_filter (\<lambda>r. sql_gt (r_days_since_assessment r) (Some 90)) g,
      k_overdue_pct =
        percent_of (sql_count_filter (\<lambda>r. sql_gt (r_days_since_assessment r) (Some 90)) g) (int (length g)),
      k_median_days_since =
        percentile_cont (1 / 2)
          (List.map_filter r_days_since_assessment
             (filter (\<lambda>r. holds (sql_is_not_null (r_days_since_assessment r))) g))\<rparr>"

definition v_teacher_kpis ::
  "(assessment list \<Rightarrow> assessment list) \<Rightarrow> int \<Rightarrow> database \<Rightarrow> kpi_row list" where
  "v_teacher_kpis ord current_date db =
     map (\<lambda>(k, g). kpi_row_of k g) (group_by kpi_key (v_teacher_roster ord current_date db))"

text \<open>
  The roster rows a row of the view was computed from: those with its teacher, school
  year and subject.
\<close>

definition kpi_group :: "roster_row list \<Rightarrow> kpi_row \<Rightarrow> roster_row list" where
  "kpi_group roster kr =
     filter (\<lambda>r. kpi_key r = (k_teacher_name kr, k_school_year kr, k_subject_area kr)) roster"

section \<open>\<^verbatim>\<open>v_priority_students\<close>\<close>

record priority_row =
  pr_enrollment_id :: nat
  pr_display_name :: "string option"
  pr_teacher_name :: "string option"
  pr_school_year :: "string option"
  pr_grade_level :: "string option"
  pr_class_name :: "string option"
  pr_subject_area :: "string option"
  pr_latest_score :: "rat option"
  pr_support_status :: support_status
  pr_tier :: tier
  pr_trend :: "trend option"
  pr_days_since_assessment :: "int option"
  pr_has_active_intervention :: bool
  pr_priority_score :: int
  pr_reasons :: string

definition growth_matches :: "support_row \<Rightarrow> growth_row \<Rightarrow> bool" where
  "growth_matches ss g =
     holds (sql_and (sql_and
       (sql_eq (g_enrollment_id g) (Some (ss_enrollment_id ss)))
       (sql_eq (g_subject_area g) (ss_subject_area ss)))
       (sql_eq (Some (g_school_year g)) (ss_school_year ss)))"

definition priority_row_of :: "support_row \<Rightarrow> growth_row option \<Rightarrow> priority_row" where
  "priority_row_of ss g =
     \<lparr>pr_enrollment_id = ss_enrollment_id ss, pr_display_name = ss_display_name ss,
      pr_teacher_name = ss_teacher_name ss, pr_school_year = ss_school_year ss,
      pr_grade_level = ss_grade_level ss, pr_class_name = ss_class_name ss,
      pr_subject_area = ss_subject_area ss, pr_latest_score = ss_latest_score ss,
      pr_support_status = ss_support_status ss, pr_tier = ss_tier ss,
      pr_trend = map_option g_trend g,
      pr_days_since_assessment = ss_days_since_assessment ss,
      pr_has_active_intervention = ss_has_active_intervention ss,
      pr_priority_score =
        priority_score (ss_tier ss) (map_option g_trend g) (ss_days_since_assessment ss)
          (ss_has_active_intervention ss),
      pr_reasons =
        reasons (ss_tier ss) (map_option g_trend g) (ss_days_since_assessment ss)
          (ss_has_active_intervention ss)\<rparr>"

definition priority_rows :: "growth_row list \<Rightarrow> support_row \<Rightarrow> priority_row list" where
  "priority_rows growth ss = map (priority_row_of ss) (left_join (growth_matches ss) growth)"

text \<open>
  The view reads \<^verbatim>\<open>v_support_status\<close> and \<^verbatim>\<open>v_growth_last_two\<close>, each with an
  ordering of its own: PostgreSQL need not break a tie the same way in both.
\<close>

definition v_priority_students ::
  "(assessment list \<Rightarrow> assessment list) \<Rightarrow> (assessment list \<Rightarrow> assessment list) \<Rightarrow> int \<Rightarrow> database
     \<Rightarrow> priority_row list" where
  "v_priority_students ord_latest ord_ranked current_date db =
     concat (map (priority_rows (v_growth_last_two ord_ranked (assessments db)))
       (v_support_status ord_latest current_date db))"

section \<open>The intervention flag in words\<close>

text \<open>
  The status test of \<^verbatim>\<open>active_intervention\<close> read as a plain predicate: a null status,
  or a status that is one of the three words once blanks at both ends are removed and
  capitals are lowered.
\<close>

definition counts_as_active :: "string option \<Rightarrow> bool" where
  "counts_as_active status =
     (case status of
        None \<Rightarrow> True
      | Some s \<Rightarrow> map lower_char (trim_both '' '' s) \<in> {''active'', ''in progress'', ''ongoing''})"

text \<open>
  The flag as the specification words it: some intervention of this enrollment and this
  subject whose status contains one of the three words, whatever the case of its letters.
\<close>

definition spec_has_active_intervention :: "intervention list \<Rightarrow> nat \<Rightarrow> string option \<Rightarrow> bool" where
  "spec_has_active_intervention ivs eid subject =
     list_ex (\<lambda>i. i_enrollment_id i = Some eid \<and> i_subject_area i = subject
                \<and> (case i_status i of
                      None \<Rightarrow> False
                    | Some s \<Rightarrow> list_ex (\<lambda>word. sublist word (map lower_char s))
                                 [''active'', ''in progress'', ''ongoing'']))
       ivs"

section \<open>Example data\<close>

text \<open>
  One enrollment (grade 3, 2024-25) of one person, with tables to be filled in: the
  concrete inputs of the examples below.
\<close>

definition enrollment_1 :: enrollment where
  "enrollment_1 =
     \<lparr>e_enrollment_id = 1, e_student_uuid = Some 7, e_school_year = Some ''2024-25'',
      e_grade_level = Some ''3'', e_class_name = Some ''3-A'', e_teacher_name = Some ''Garcia''\<rparr>"

definition person_7 :: student_core where
  "person_7 = \<lparr>s_student_uuid = 7, s_display_name = Some ''Ada''\<rparr>"

definition math_assessment :: "string \<Rightarrow> rat option \<Rightarrow> int \<Rightarrow> int \<Rightarrow> assessment" where
  "math_assessment period score day entered =
     \<lparr>a_enrollment_id = Some 1, a_subject_area = Some ''Math'',
      a_assessment_type = ''ERB_Mathematics'', a_assessment_period = period,
      a_school_year = ''2024-25'', a_score_normalized = score,
      a_effective_date = Some day, a_created_at = Some entered\<rparr>"

definition example_db :: "assessment list \<Rightarrow> intervention list \<Rightarrow> benchmark_threshold list \<Rightarrow> database" where
  "example_db as ivs ths =
     \<lparr>student_enrollments = [enrollment_1], students_core = [person_7], assessments = as,
      interventions = ivs, benchmark_thresholds = ths\<rparr>"

definition intervention_for_1 :: "string \<Rightarrow> string option \<Rightarrow> intervention" where
  "intervention_for_1 subject status =
     \<lparr>i_enrollment_id = Some 1, i_subject_area = Some subject, i_status = status\<rparr>"

text \<open>
  A class of two: a second enrollment of the same teacher, year and grade, of another
  person, beside the first.
\<close>

definition enrollment_2 :: enrollment where
  "enrollment_2 =
     \<lparr>e_enrollment_id = 2, e_student_uuid = Some 8, e_school_year = Some ''2024-25'',
      e_grade_level = Some ''3'', e_class_name = Some ''3-A'', e_teacher_name = Some ''Garcia''\<rparr>"

definition person_8 :: student_core where
  "person_8 = \<lparr>s_student_uuid = 8, s_display_name = Some ''Ben''\<rparr>"

definition class_db :: "assessment list \<Rightarrow> database" where
  "class_db as =
     \<lparr>student_enrollments = [enrollment_1, enrollment_2], students_core = [person_7, person_8],
      assessments = as, interventions = [], benchmark_thresholds = []\<rparr>"

section \<open>Properties of the tiering rule\<close>

lemma tier_of_scored:
  "tier_of (Some s) st bt =
     (if (\<exists>t. st = Some t \<and> s < t) then Intensive
      else if (\<exists>t. bt = Some t \<and> s < t) then Strategic
      else Core)"
  by (cases st; cases bt)
     (simp_all add: tier_of_def holds_def sql_and_def sql_lt_def sql_is_null_def sql_is_not_null_def)

lemma support_status_of_scored:
  "support_status_of (Some s) st bt =
     (if (\<exists>t. st = Some t \<and> s < t) then Needs_Support
      else if (\<exists>t. bt = Some t \<and> s < t) then Monitor
      else On_Track)"
  by (cases st; cases bt)
     (simp_all add: support_status_of_def holds_def sql_and_def sql_lt_def sql_is_null_def
        sql_is_not_null_def)

lemma tier_of_null [simp]: "tier_of None st bt = Unknown"
  by (simp add: tier_of_def holds_def sql_is_null_def)

lemma support_status_of_null [simp]: "support_status_of None st bt = Status_Unknown"
  by (simp add: support_status_of_def holds_def sql_is_null_def)


text \<open>
  Claim C8. Tiering is monotonic in the score: for a fixed pair of thresholds, each
  present or absent, and two non-null scores \<open>s1 \<le> s2\<close>, the tier of \<open>s1\<close> is at most
  the tier of \<open>s2\<close> in the ordering Intensive, Strategic, Core; neither tier is Unknown.
\<close>

theorem tiering_monotone:
  assumes "s1 \<le> s2"
  shows "tier_rank (tier_of (Some s1) st bt) \<le> tier_rank (tier_of (Some s2) st bt)
         \<and> tier_of (Some s1) st bt \<noteq> Unknown \<and> tier_of (Some s2) st bt \<noteq> Unknown"
proof (cases "tier_of (Some s2) st bt")
  case Unknown
  then show ?thesis by (simp add: tier_of_scored split: if_splits)
next
  case Intensive
  then obtain t where "st = Some t" "s2 < t"
    by (auto simp: tier_of_scored split: if_splits)
  with assms have "tier_of (Some s1) st bt = Intensive"
    by (simp add: tier_of_scored)
  with Intensive show ?thesis by simp
next
  case Strategic
  then obtain b where b: "bt = Some b" "s2 < b"
    by (auto simp: tier_of_scored split: if_splits)
  with assms have "s1 < b" by simp
  with b have "tier_of (Some s1) st bt \<in> {Intensive, Strategic}"
    by (simp add: tier_of_scored)
  with Strategic show ?thesis by auto
next
  case Core
  have "tier_of (Some s1) st bt \<noteq> Unknown"
    by (simp add: tier_of_scored)
  with Core show ?thesis by (cases "tier_of (Some s1) st bt") simp_all
qed

theorem tiering_monotone_witness:
  "(58::rat) \<le> 61
   \<and> tier_of (Some 58) (Some 60) (Some 75) = Intensive
   \<and> tier_of (Some 61) (Some 60) (Some 75) = Strategic
   \<and> tier_rank (tier_of (Some 58) (Some 60) (Some 75)) \<le> tier_rank (tier_of (Some 61) (Some 60) (Some 75))"
proof -
  have h: "(58::rat) \<le> 61" by simp
  from tiering_monotone [OF h, of "Some 60" "Some 75"] h
  show ?thesis by (simp add: tier_of_scored)
qed

section \<open>Properties of the priority score and the reasons\<close>

lemma tier_points:
  "case_when [(sql_eq (Some tier) (Some Intensive), 5), (sql_eq (Some tier) (Some Strategic), 3)] (0::int) =
     (if tier = Intensive then 5 else if tier = Strategic then 3 else 0)"
  by (simp add: holds_def sql_eq_def)

lemma trend_points:
  "case_when [(sql_eq trend (Some Declining), 3), (sql_eq trend (Some Stable), 1)] (0::int) =
     (if trend = Some Declining then 3 else if trend = Some Stable then 1 else 0)"
  by (cases trend) (simp_all add: holds_def sql_eq_def)

lemma recency_points:
  "case_when [(sql_gt days (Some 90), 2), (sql_gt days (Some 60), 1)] (0::int) =
     (case days of None \<Rightarrow> 0 | Some d \<Rightarrow> if 90 < d then 2 else if 60 < d then 1 else 0)"
  by (cases days) (simp_all add: holds_def sql_gt_def sql_lt_def)

lemma gap_fires:
  "holds (sql_and (sql_eq (Some ai) (Some False)) (sql_in (Some tier) [Some Intensive, Some Strategic]))
     = (\<not> ai \<and> (tier = Intensive \<or> tier = Strategic))"
  by (cases tier; cases ai) (simp_all add: holds_def sql_and_def sql_or_def sql_eq_def)

lemma gap_points:
  "case_when
     [(sql_and (sql_eq (Some ai) (Some False)) (sql_in (Some tier) [Some Intensive, Some Strategic]), 2)]
     (0::int) = (if \<not> ai \<and> (tier = Intensive \<or> tier = Strategic) then 2 else 0)"
  using gap_fires [of ai tier] by (simp del: sql_in.simps)

lemma overdue_fires: "holds (sql_gt days (Some (90::int))) = (\<exists>d. days = Some d \<and> 90 < d)"
  by (cases days) (simp_all add: holds_def sql_gt_def sql_lt_def)

text \<open>
  Claim C5. The priority score is the sum of independent contributions: 5 for tier
  Intensive, 3 for tier Strategic, 3 for trend Declining, 1 for trend Stable, 2 for more
  than 90 days since the assessment, 1 for more than 60 but not more than 90 days, and
  2 when there is no active intervention and the tier is Intensive or Strategic. For
  tier Intensive, trend Declining, no active intervention and 95 days the score is 12.
\<close>

theorem priority_score_additive:
  "priority_score tier trend days has_ai =
     (if tier = Intensive then 5 else if tier = Strategic then 3 else 0)
     + (if trend = Some Declining then 3 else if trend = Some Stable then 1 else 0)
     + (case days of None \<Rightarrow> 0 | Some d \<Rightarrow> if 90 < d then 2 else if 60 < d then 1 else 0)
     + (if \<not> has_ai \<and> (tier = Intensive \<or> tier = Strategic) then 2 else 0)
   \<and> priority_score Intensive (Some Declining) (Some 95) False = 12"
proof -
  have sum: "priority_score t tr d ai =
     (if t = Intensive then 5 else if t = Strategic then 3 else 0)
     + (if tr = Some Declining then 3 else if tr = Some Stable then 1 else 0)
     + (case d of None \<Rightarrow> 0 | Some d \<Rightarrow> if 90 < d then 2 else if 60 < d then 1 else 0)
     + (if \<not> ai \<and> (t = Intensive \<or> t = Strategic) then 2 else 0)" for t tr d ai
    unfolding priority_score_def tier_points trend_points recency_points gap_points
    by (rule refl)
  have "priority_score Intensive (Some Declining) (Some 95) False = 12"
    unfolding sum by simp
  with sum [of tier trend days has_ai] show ?thesis by (intro conjI)
qed

lemma tier_reason:
  "case_when
     [(sql_eq (Some tier) (Some Intensive), Some ''Intensive tier''),
      (sql_eq (Some tier) (Some Strategic), Some ''Strategic tier'')] None =
   (if tier = Intensive then Some ''Intensive tier''
    else if tier = Strategic then Some ''Strategic tier'' else None)"
  by (simp add: holds_def sql_eq_def)

lemma trend_reason:
  "case_when [(sql_eq trend (Some Declining), Some ''Declining growth trend'')] None =
   (if trend = Some Declining then Some ''Declining growth trend'' else None)"
  by (cases trend) (simp_all add: holds_def sql_eq_def)

lemma gap_reason:
  "case_when
     [(sql_and (sql_eq (Some ai) (Some False)) (sql_in (Some tier) [Some Intensive, Some Strategic]),
       Some ''No active intervention'')] None =
   (if \<not> ai \<and> (tier = Intensive \<or> tier = Strategic) then Some ''No active intervention'' else None)"
  using gap_fires [of ai tier] by (simp del: sql_in.simps)

lemma overdue_reason:
  "case_when [(sql_gt days (Some (90::int)), Some ''Overdue assessment (>90d)'')] None =
   (if (\<exists>d. days = Some d \<and> 90 < d) then Some ''Overdue assessment (>90d)'' else None)"
  using overdue_fires [of days] by simp

lemma reasons_unfolded:
  "reasons tier trend days ai =
     trim_both '' |''
       (concat_ws '' | ''
          [if tier = Intensive then Some ''Intensive tier''
           else if tier = Strategic then Some ''Strategic tier'' else None,
           if trend = Some Declining then Some ''Declining growth trend'' else None,
           if \<not> ai \<and> (tier = Intensive \<or> tier = Strategic) then Some ''No active intervention'' else None,
           if (\<exists>d. days = Some d \<and> 90 < d) then Some ''Overdue assessment (>90d)'' else None])"
  unfolding reasons_def tier_reason trend_reason gap_reason overdue_reason by (rule refl)

text \<open>The TRIM removes nothing: no reason string starts or ends with a blank or a bar.\<close>

lemma reasons_join:
  "reasons tier trend days ai = join_with '' | '' (fired_reasons tier trend days ai)"
  unfolding reasons_unfolded fired_reasons_def
  by (cases tier; cases "trend = Some Declining"; cases ai; cases "\<exists>d. days = Some d \<and> 90 < d")
     (simp_all add: concat_ws_def trim_both_def List.map_filter_simps)

lemma reasons_ends:
  "reasons tier trend days ai = []
   \<or> (hd (reasons tier trend days ai) \<notin> set '' |'' \<and> last (reasons tier trend days ai) \<notin> set '' |'')"
  unfolding reasons_join fired_reasons_def
  by (cases tier; cases "trend = Some Declining"; cases ai; cases "\<exists>d. days = Some d \<and> 90 < d")
     simp_all

lemma reasons_no_separator_at_ends:
  "\<not> prefix '' | '' (reasons tier trend days ai) \<and> \<not> suffix '' | '' (reasons tier trend days ai)"
  unfolding reasons_join fired_reasons_def
  by (cases tier; cases "trend = Some Declining"; cases ai; cases "\<exists>d. days = Some d \<and> 90 < d")
     (simp_all add: suffix_to_prefix)

lemma fired_reasons_subseq:
  "subseq (fired_reasons tier trend days ai)
     [''Intensive tier'', ''Strategic tier'', ''Declining growth trend'', ''No active intervention'',
      ''Overdue assessment (>90d)'']"
  unfolding fired_reasons_def
  by (cases tier; cases "trend = Some Declining"; cases ai; cases "\<exists>d. days = Some d \<and> 90 < d")
     simp_all

lemma fired_reasons_no_placeholder: "''None'' \<notin> set (fired_reasons tier trend days ai)"
  unfolding fired_reasons_def by simp

text \<open>
  Claim C7. The reasons value holds only the strings of the conditions that fired, in the
  fixed display order (tier label, declining trend, no active intervention, overdue
  assessment), joined by the separator \<open>'' | ''\<close>; it neither starts nor ends with a
  separator (nor with a blank or a bar), and no \<open>''None''\<close> placeholder stands for a
  condition that did not fire. For the example of the specification all four fire.
\<close>

theorem reasons_only_fired_in_order:
  "reasons tier trend days has_ai = join_with '' | '' (fired_reasons tier trend days has_ai)
   \<and> subseq (fired_reasons tier trend days has_ai)
        [''Intensive tier'', ''Strategic tier'', ''Declining growth trend'', ''No active intervention'',
         ''Overdue assessment (>90d)'']
   \<and> \<not> prefix '' | '' (reasons tier trend days has_ai)
   \<and> \<not> suffix '' | '' (reasons tier trend days has_ai)
   \<and> (reasons tier trend days has_ai = []
        \<or> (hd (reasons tier trend days has_ai) \<notin> set '' |''
            \<and> last (reasons tier trend days has_ai) \<notin> set '' |''))
   \<and> ''None'' \<notin> set (fired_reasons tier trend days has_ai)
   \<and> reasons Intensive (Some Declining) (Some 95) False =
        ''Intensive tier | Declining growth trend | No active intervention | Overdue assessment (>90d)''
   \<and> reasons Core (Some Improving) (Some 10) True = []"
proof -
  have example: "reasons Intensive (Some Declining) (Some 95) False =
        ''Intensive tier | Declining growth trend | No active intervention | Overdue assessment (>90d)''"
    unfolding reasons_join fired_reasons_def by simp
  have nothing_fired: "reasons Core (Some Improving) (Some 10) True = []"
    unfolding reasons_join fired_reasons_def by simp
  from reasons_join [of tier trend days has_ai] fired_reasons_subseq [of tier trend days has_ai]
    reasons_no_separator_at_ends [of tier trend days has_ai] reasons_ends [of tier trend days has_ai]
    fired_reasons_no_placeholder [of tier trend days has_ai] example nothing_fired
  show ?thesis by (intro conjI) (erule conjunct1 conjunct2 | assumption)+
qed

section \<open>Grouping, ordering and the growth view\<close>

lemma recency_key_less: "recency_key x < recency_key y \<longleftrightarrow> more_recent x y"
  by (auto simp: recency_key_def more_recent_def created_later_def desc_nulls_last_def
        desc_nulls_first_def less_prod_def split: option.splits)

lemma order_by_recency_sorted:
  "sorted_wrt (\<lambda>x y. \<not> more_recent y x) (order_by_recency rows)"
proof -
  have "sorted (map recency_key (sort_key recency_key rows))" by simp
  then show ?thesis
    by (simp add: order_by_recency_def sorted_wrt_map recency_key_less [symmetric] not_less)
qed

lemma filter_eq_remdups: "filter (\<lambda>x. x = k) (remdups xs) = (if k \<in> set xs then [k] else [])"
  by (induction xs) auto

lemma group_by_lookup:
  "filter (\<lambda>(k', g). k' = k) (group_by key rows) =
     (if k \<in> key ` set rows then [(k, filter (\<lambda>r. key r = k) rows)] else [])"
proof -
  have "filter (\<lambda>(k', g). k' = k) (group_by key rows) =
        map (\<lambda>k. (k, filter (\<lambda>r. key r = k) rows)) (filter (\<lambda>x. x = k) (remdups (map key rows)))"
    by (simp add: group_by_def filter_map comp_def)
  then show ?thesis by (simp add: filter_eq_remdups)
qed

lemma group_by_keys_distinct: "distinct (map fst (group_by key rows))"
  by (simp add: group_by_def comp_def)

lemma group_by_member:
  "(k, g) \<in> set (group_by key rows) \<Longrightarrow> g = filter (\<lambda>r. key r = k) rows \<and> k \<in> key ` set rows"
  by (auto simp: group_by_def)

lemma filter_concat_groups:
  assumes "\<And>k g x. (k, g) \<in> set gs \<Longrightarrow> x \<in> set (f (k, g)) \<Longrightarrow> key x = k"
  shows "filter (\<lambda>x. key x = k) (concat (map f gs)) = concat (map f (filter (\<lambda>(k', g). k' = k) gs))"
  using assms
proof (induction gs)
  case Nil
  then show ?case by simp
next
  case (Cons p gs)
  obtain k' g where p: "p = (k', g)" by (cases p)
  have all: "\<forall>x \<in> set (f (k', g)). key x = k'"
    using Cons.prems [of k' g] p by simp
  have here: "filter (\<lambda>x. key x = k) (f (k', g)) = (if k' = k then f (k', g) else [])"
    using all by (auto simp: filter_empty_conv filter_id_conv)
  have rest: "filter (\<lambda>x. key x = k) (concat (map f gs)) = concat (map f (filter (\<lambda>(k', g). k' = k) gs))"
    by (rule Cons.IH) (use Cons.prems in auto)
  show ?case by (simp add: p here rest)
qed

lemma filter_rn_zip:
  "filter (\<lambda>(a, rn). rn = j) (zip xs [i ..< i + length xs]) =
     (if i \<le> j \<and> j < i + length xs then [(xs ! (j - i), j)] else [])"
proof (induction xs arbitrary: i)
  case Nil
  then show ?case by simp
next
  case (Cons x xs)
  have up: "[i ..< i + length (x # xs)] = i # [Suc i ..< Suc i + length xs]"
    by (subst upt_rec) simp
  show ?case
    unfolding up using Cons.IH [of "Suc i"]
    by (auto simp: Suc_diff_le simp del: upt_Suc)
qed


lemma scored_filter:
  "holds (sql_and (sql_is_not_null (a_enrollment_id a)) (sql_is_not_null (a_score_normalized a)))
     = (a_enrollment_id a \<noteq> None \<and> a_score_normalized a \<noteq> None)"
  by (auto simp: holds_def sql_and_def sql_is_not_null_def)

lemma order_by_recency_admissible: "admissible_order order_by_recency"
  unfolding admissible_order_def
proof (intro allI conjI)
  fix rows
  show "mset (order_by_recency rows) = mset rows" by (simp add: order_by_recency_def)
  show "sorted_wrt (\<lambda>x y. \<not> more_recent y x) (order_by_recency rows)"
    by (rule order_by_recency_sorted)
qed

lemma admissible_mset: "admissible_order ord \<Longrightarrow> mset (ord rows) = mset rows"
  by (simp add: admissible_order_def)

lemma admissible_sorted:
  "admissible_order ord \<Longrightarrow> sorted_wrt (\<lambda>x y. \<not> more_recent y x) (ord rows)"
  by (simp add: admissible_order_def)

lemma admissible_set: "admissible_order ord \<Longrightarrow> set (ord rows) = set rows"
  by (rule mset_eq_setD) (rule admissible_mset)

lemma admissible_length: "admissible_order ord \<Longrightarrow> length (ord rows) = length rows"
  by (rule mset_eq_length) (rule admissible_mset)

lemma admissible_nil: "admissible_order ord \<Longrightarrow> ord [] = []"
  using admissible_length [of ord "[]"] by simp

text \<open>
  Where no two rows tie on the date and the instant of insertion, the ORDER BY leaves
  nothing open: every admissible ordering returns what the stable sort returns, and so
  do the views.
\<close>

lemma filter_eq_replicate: "filter (\<lambda>x. k = x) ys = replicate (count (mset ys) k) k"
  by (induction ys) auto

lemma admissible_unique:
  assumes adm: "admissible_order ord" and inj: "inj_on recency_key (set rows)"
  shows "ord rows = order_by_recency rows"
proof -
  have ms: "mset (ord rows) = mset rows" by (rule admissible_mset [OF adm])
  have sorted: "sorted (map recency_key (ord rows))"
    using admissible_sorted [OF adm, of rows]
    by (simp add: sorted_wrt_map recency_key_less [symmetric] not_less)
  have same: "filter (\<lambda>x. recency_key k = recency_key x) (ord rows)
                = filter (\<lambda>x. recency_key k = recency_key x) rows"
    if "k \<in> set (ord rows)" for k
  proof -
    from that have k: "k \<in> set rows" by (simp only: admissible_set [OF adm])
    have key: "recency_key k = recency_key x \<longleftrightarrow> k = x" if "x \<in> set rows" for x
      using inj k that by (auto simp: inj_on_def)
    have "filter (\<lambda>x. recency_key k = recency_key x) (ord rows) = filter (\<lambda>x. k = x) (ord rows)"
      by (rule filter_cong [OF refl]) (simp add: key admissible_set [OF adm])
    moreover have "filter (\<lambda>x. recency_key k = recency_key x) rows = filter (\<lambda>x. k = x) rows"
      by (rule filter_cong [OF refl]) (simp add: key)
    ultimately show ?thesis by (simp only: filter_eq_replicate ms)
  qed
  show ?thesis
    unfolding order_by_recency_def by (rule properties_for_sort_key [symmetric, OF ms same sorted])
qed

lemma group_unique:
  assumes adm: "admissible_order ord" and inj: "inj_on recency_key (set rows)"
    and g: "(k, g) \<in> set (group_by key (filter P rows))"
  shows "ord g = order_by_recency g"
proof -
  from group_by_member [OF g] have "set g \<subseteq> set rows" by auto
  with inj have "inj_on recency_key (set g)" by (rule inj_on_subset)
  with adm show ?thesis by (rule admissible_unique)
qed

lemma latest_unique:
  assumes adm: "admissible_order ord" and inj: "inj_on recency_key (set rows)"
  shows "latest ord rows = latest order_by_recency rows"
proof -
  have "(\<lambda>(k, g). case ord g of [] \<Rightarrow> [] | a # others \<Rightarrow> [latest_of a]) p
          = (\<lambda>(k, g). case order_by_recency g of [] \<Rightarrow> [] | a # others \<Rightarrow> [latest_of a]) p"
    if "p \<in> set (group_by latest_key (filter (\<lambda>a. holds (sql_is_not_null (a_enrollment_id a))) rows))"
    for p
  proof -
    obtain k g where p: "p = (k, g)" by (cases p)
    from that p have "ord g = order_by_recency g"
      by (intro group_unique [OF adm inj]) simp
    with p show ?thesis by simp
  qed
  then show ?thesis unfolding latest_def by (intro arg_cong [where f = concat] map_cong refl)
qed

lemma ranked_unique:
  assumes adm: "admissible_order ord" and inj: "inj_on recency_key (set rows)"
  shows "ranked ord rows = ranked order_by_recency rows"
proof -
  let ?kept = "filter (\<lambda>a. holds (sql_and (sql_is_not_null (a_enrollment_id a))
                                        (sql_is_not_null (a_score_normalized a)))) rows"
  have "(\<lambda>(k, g). zip (ord g) [1 ..< Suc (length g)]) p
          = (\<lambda>(k, g). zip (order_by_recency g) [1 ..< Suc (length g)]) p"
    if "p \<in> set (group_by growth_key ?kept)" for p
  proof -
    obtain k g where p: "p = (k, g)" by (cases p)
    from that p have "ord g = order_by_recency g"
      by (intro group_unique [OF adm inj]) simp
    with p show ?thesis by (simp del: upt_Suc)
  qed
  then show ?thesis unfolding ranked_def by (intro arg_cong [where f = concat] map_cong refl)
qed

lemma growth_unique:
  assumes "admissible_order ord" and "inj_on recency_key (set rows)"
  shows "v_growth_last_two ord rows = v_growth_last_two order_by_recency rows"
  unfolding v_growth_last_two_def pairs_def ranked_unique [OF assms] by (rule refl)

lemma support_unique:
  assumes "admissible_order ord" and "inj_on recency_key (set (assessments db))"
  shows "v_support_status ord current_date db = v_support_status order_by_recency current_date db"
  unfolding v_support_status_def v_teacher_roster_def latest_unique [OF assms] by (rule refl)

lemma ranked_partition:
  assumes adm: "admissible_order ord"
  shows "filter (\<lambda>p. growth_key (fst p) = k) (ranked ord rows) =
     zip (ord (scored_partition rows k)) [1 ..< Suc (length (scored_partition rows k))]"
proof -
  let ?scored = "filter (\<lambda>a. a_enrollment_id a \<noteq> None \<and> a_score_normalized a \<noteq> None) rows"
  let ?f = "\<lambda>(k, g). zip (ord g) [1 ..< Suc (length g)]"
  have ranked: "ranked ord rows = concat (map ?f (group_by growth_key ?scored))"
    by (simp add: ranked_def scored_filter)
  have members: "growth_key (fst x) = k'"
    if "(k', g) \<in> set (group_by growth_key ?scored)" "x \<in> set (?f (k', g))" for k' g x
  proof -
    have g: "g = filter (\<lambda>r. growth_key r = k') ?scored"
      using group_by_member [OF that(1)] by (rule conjunct1)
    have "x \<in> set (zip (ord g) [1 ..< Suc (length g)])"
      using that(2) by (simp del: upt_Suc)
    then have "fst x \<in> set (ord g)"
      by (metis prod.collapse set_zip_leftD)
    with g show ?thesis by (simp add: admissible_set [OF adm])
  qed
  have part: "filter (\<lambda>r. growth_key r = k) ?scored = scored_partition rows k"
    by (simp add: scored_partition_def conj_commute conj_left_commute)
  have "filter (\<lambda>x. growth_key (fst x) = k) (ranked ord rows)
          = concat (map ?f (filter (\<lambda>(k', g). k' = k) (group_by growth_key ?scored)))"
    unfolding ranked by (rule filter_concat_groups) (rule members)
  also have "\<dots> = concat (map ?f (if k \<in> growth_key ` set ?scored
                          then [(k, filter (\<lambda>r. growth_key r = k) ?scored)] else []))"
    by (simp only: group_by_lookup)
  also have "\<dots> = concat (map ?f (if k \<in> growth_key ` set ?scored
                          then [(k, scored_partition rows k)] else []))"
    by (simp only: part)
  also have "\<dots> = ?f (k, scored_partition rows k)"
  proof (cases "k \<in> growth_key ` set ?scored")
    case True
    then show ?thesis by (simp del: upt_Suc)
  next
    case False
    then have "filter (\<lambda>r. growth_key r = k) ?scored = []"
      by (auto simp: filter_empty_conv)
    with part have "scored_partition rows k = []" by simp
    with False show ?thesis by (simp add: admissible_nil [OF adm])
  qed
  finally show ?thesis by (simp del: upt_Suc)
qed


lemma filter_rn_zip1:
  "filter (\<lambda>(a, rn). rn = j) (zip xs [1 ..< Suc (length xs)]) =
     (if 1 \<le> j \<and> j \<le> length xs then [(xs ! (j - 1), j)] else [])"
  using filter_rn_zip [of j xs 1] by (simp del: upt_Suc add: less_Suc_eq_le)

lemma first_two_rn:
  "j \<le> 2 \<Longrightarrow> filter (\<lambda>(a, rn). rn = j) (filter (\<lambda>(a, rn::nat). rn \<le> 2) zs) = filter (\<lambda>(a, rn). rn = j) zs"
  by (induction zs) auto

lemma sql_max_single [simp]: "sql_max [v] = v"
  by (cases v) simp_all

lemma pairs_lookup:
  assumes adm: "admissible_order ord"
  shows "filter (\<lambda>p. (p_enrollment_id p, p_subject_area p, p_school_year p) = k) (pairs ord rows) =
     (case ord (scored_partition rows k) of
        [] \<Rightarrow> []
      | a # rest \<Rightarrow>
          [\<lparr>p_enrollment_id = fst k, p_subject_area = fst (snd k), p_school_year = snd (snd k),
            p_latest_score = a_score_normalized a,
            p_prior_score = (case rest of [] \<Rightarrow> None | b # others \<Rightarrow> a_score_normalized b)\<rparr>])"
proof -
  let ?S = "ord (scored_partition rows k)"
  let ?R2 = "filter (\<lambda>(a, rn). rn \<le> 2) (ranked ord rows)"
  let ?key2 = "\<lambda>(a, rn). growth_key a"
  let ?h = "\<lambda>((eid, subject, year), g).
            \<lparr>p_enrollment_id = eid, p_subject_area = subject, p_school_year = year,
             p_latest_score = sql_max (map (\<lambda>(a, rn). a_score_normalized a) (filter (\<lambda>(a, rn). rn = 1) g)),
             p_prior_score = sql_max (map (\<lambda>(a, rn). a_score_normalized a) (filter (\<lambda>(a, rn). rn = 2) g))\<rparr>"
  let ?Z = "filter (\<lambda>(a, rn). rn \<le> 2) (zip ?S [1 ..< Suc (length ?S)])"
  have len: "length (scored_partition rows k) = length ?S"
    by (simp add: admissible_length [OF adm])
  have "filter (\<lambda>r. ?key2 r = k) ?R2 = filter (\<lambda>(a, rn). rn \<le> 2) (filter (\<lambda>p. growth_key (fst p) = k) (ranked ord rows))"
    by (simp add: split_def conj_commute)
  then have Z: "filter (\<lambda>r. ?key2 r = k) ?R2 = ?Z"
    by (simp only: ranked_partition [OF adm] len)
  have rn1: "filter (\<lambda>(a, rn). rn = 1) ?Z = (if 1 \<le> length ?S then [(?S ! 0, 1)] else [])"
    by (simp only: first_two_rn filter_rn_zip1) simp
  have rn2: "filter (\<lambda>(a, rn). rn = 2) ?Z = (if 2 \<le> length ?S then [(?S ! 1, 2)] else [])"
    by (simp only: first_two_rn filter_rn_zip1) simp
  have image: "k \<in> ?key2 ` set ?R2 \<longleftrightarrow> ?S \<noteq> []"
  proof -
    have "k \<in> ?key2 ` set ?R2 \<longleftrightarrow> filter (\<lambda>r. ?key2 r = k) ?R2 \<noteq> []"
      by (auto simp: filter_empty_conv)
    also have "\<dots> \<longleftrightarrow> ?Z \<noteq> []" by (simp only: Z)
    also have "\<dots> \<longleftrightarrow> ?S \<noteq> []"
    proof
      assume "?Z \<noteq> []"
      then show "?S \<noteq> []" by (auto simp del: upt_Suc)
    next
      assume "?S \<noteq> []"
      then have "filter (\<lambda>(a, rn). rn = 1) ?Z \<noteq> []"
        unfolding rn1 by (cases ?S) simp_all
      then show "?Z \<noteq> []" by (metis filter.simps(1))
    qed
    finally show ?thesis .
  qed
  have "filter (\<lambda>p. (p_enrollment_id p, p_subject_area p, p_school_year p) = k) (pairs ord rows)
          = map ?h (filter (\<lambda>(k', g). k' = k) (group_by ?key2 ?R2))"
    by (simp add: pairs_def filter_map comp_def split_def)
  also have "\<dots> = map ?h (if k \<in> ?key2 ` set ?R2 then [(k, filter (\<lambda>r. ?key2 r = k) ?R2)] else [])"
    by (simp only: group_by_lookup)
  also have "\<dots> = map ?h (if ?S \<noteq> [] then [(k, ?Z)] else [])"
    by (simp only: image Z)
  also have "\<dots> = (case ?S of
        [] \<Rightarrow> []
      | a # rest \<Rightarrow>
          [\<lparr>p_enrollment_id = fst k, p_subject_area = fst (snd k), p_school_year = snd (snd k),
            p_latest_score = a_score_normalized a,
            p_prior_score = (case rest of [] \<Rightarrow> None | b # others \<Rightarrow> a_score_normalized b)\<rparr>])"
  proof (cases ?S)
    case Nil
    then show ?thesis by simp
  next
    case (Cons a rest)
    then have one: "filter (\<lambda>(a, rn). rn = 1) ?Z = [(a, 1)]"
      unfolding rn1 by simp
    from Cons have two: "filter (\<lambda>(a, rn). rn = 2) ?Z = (case rest of [] \<Rightarrow> [] | b # others \<Rightarrow> [(b, 2)])"
      unfolding rn2 by (cases rest) simp_all
    let ?sc = "\<lambda>(a, rn::nat). a_score_normalized a"
    have "?h (k, ?Z) =
          \<lparr>p_enrollment_id = fst k, p_subject_area = fst (snd k), p_school_year = snd (snd k),
           p_latest_score = sql_max (map ?sc (filter (\<lambda>(a, rn). rn = 1) ?Z)),
           p_prior_score = sql_max (map ?sc (filter (\<lambda>(a, rn). rn = 2) ?Z))\<rparr>"
      by (simp only: split_def fst_conv snd_conv)
    also have "\<dots> =
          \<lparr>p_enrollment_id = fst k, p_subject_area = fst (snd k), p_school_year = snd (snd k),
           p_latest_score = sql_max (map ?sc [(a, 1)]),
           p_prior_score = sql_max (map ?sc (case rest of [] \<Rightarrow> [] | b # others \<Rightarrow> [(b, 2)]))\<rparr>"
      by (simp only: one two)
    also have "\<dots> =
          \<lparr>p_enrollment_id = fst k, p_subject_area = fst (snd k), p_school_year = snd (snd k),
           p_latest_score = a_score_normalized a,
           p_prior_score = (case rest of [] \<Rightarrow> None | b # others \<Rightarrow> a_score_normalized b)\<rparr>"
      by (cases rest) simp_all
    finally have "map ?h [(k, ?Z)] =
          [\<lparr>p_enrollment_id = fst k, p_subject_area = fst (snd k), p_school_year = snd (snd k),
           p_latest_score = a_score_normalized a,
           p_prior_score = (case rest of [] \<Rightarrow> None | b # others \<Rightarrow> a_score_normalized b)\<rparr>]"
      by (simp only: list.map)
    with Cons show ?thesis by (simp only: list.case list.distinct not_False_eq_True if_True simp_thms)
  qed
  finally show ?thesis .
qed

lemma growth_lookup:
  assumes adm: "admissible_order ord"
  shows "filter (\<lambda>g. (g_enrollment_id g, g_subject_area g, g_school_year g) = k) (v_growth_last_two ord rows) =
     (case ord (scored_partition rows k) of
        [] \<Rightarrow> []
      | a # rest \<Rightarrow>
          [\<lparr>g_enrollment_id = fst k, g_subject_area = fst (snd k), g_school_year = snd (snd k),
            g_latest_score = a_score_normalized a,
            g_prior_score = (case rest of [] \<Rightarrow> None | b # others \<Rightarrow> a_score_normalized b),
            g_growth = sql_minus (a_score_normalized a)
                         (case rest of [] \<Rightarrow> None | b # others \<Rightarrow> a_score_normalized b),
            g_trend = trend_of (a_score_normalized a)
                        (case rest of [] \<Rightarrow> None | b # others \<Rightarrow> a_score_normalized b)\<rparr>])"
proof -
  let ?m = "\<lambda>p. \<lparr>g_enrollment_id = p_enrollment_id p, g_subject_area = p_subject_area p,
                g_school_year = p_school_year p, g_latest_score = p_latest_score p,
                g_prior_score = p_prior_score p,
                g_growth = sql_minus (p_latest_score p) (p_prior_score p),
                g_trend = trend_of (p_latest_score p) (p_prior_score p)\<rparr>"
  have "filter (\<lambda>g. (g_enrollment_id g, g_subject_area g, g_school_year g) = k) (v_growth_last_two ord rows)
        = map ?m (filter (\<lambda>p. (p_enrollment_id p, p_subject_area p, p_school_year p) = k) (pairs ord rows))"
    by (simp add: v_growth_last_two_def filter_map comp_def)
  then show ?thesis
    by (simp only: pairs_lookup [OF adm]) (simp split: list.splits)
qed

section \<open>Double precision subtraction and the trend\<close>

lemma float8_exponent_bounds:
  assumes "0 < x"
  shows "2 powi (float8_exponent x) \<le> x" and "x < 2 powi (float8_exponent x + 1)"
proof -
  obtain n d where q: "quotient_of x = (n, d)" by (cases "quotient_of x")
  then have d: "0 < d" by (rule quotient_of_denom_pos)
  have x: "x = of_int n / of_int d" using q by (simp add: quotient_of_div)
  with assms d have n: "0 < n" by (simp add: zero_less_divide_iff)
  let ?a = "bitlen n" and ?b = "bitlen d"
  have a1: "1 \<le> ?a" and b1: "1 \<le> ?b"
    using n d by (simp_all add: bitlen_alt_def)
  have pw: "(2::rat) ^ nat k = 2 powi k" if "0 \<le> k" for k
    using that by (simp add: power_int_def)
  from bitlen_bounds [OF n] have "of_int (2 ^ nat (?a - 1)) \<le> (of_int n :: rat)" "(of_int n :: rat) < of_int (2 ^ nat ?a)"
    by (simp_all only: of_int_le_iff of_int_less_iff)
  then have na: "2 powi (?a - 1) \<le> (of_int n :: rat)" "(of_int n :: rat) < 2 powi ?a"
    using a1 by (simp_all add: pw)
  from bitlen_bounds [OF d] have "of_int (2 ^ nat (?b - 1)) \<le> (of_int d :: rat)" "(of_int d :: rat) < of_int (2 ^ nat ?b)"
    by (simp_all only: of_int_le_iff of_int_less_iff)
  then have db: "2 powi (?b - 1) \<le> (of_int d :: rat)" "(of_int d :: rat) < 2 powi ?b"
    using b1 by (simp_all add: pw)
  have dpos: "(0::rat) < of_int d" using d by simp
  have npos: "(0::rat) < of_int n" using n by simp
  have upper: "x < 2 powi (?a - ?b + 1)"
  proof -
    have "x \<le> of_int n / 2 powi (?b - 1)"
      unfolding x using db(1) npos dpos by (intro divide_left_mono) (simp_all add: mult_pos_pos)
    also have "\<dots> < 2 powi ?a / 2 powi (?b - 1)"
      using na(2) by (intro divide_strict_right_mono) simp_all
    also have "\<dots> = 2 powi (?a - (?b - 1))"
      by (simp add: power_int_diff)
    also have "?a - (?b - 1) = ?a - ?b + 1" by simp
    finally show ?thesis .
  qed
  have lower: "2 powi (?a - ?b - 1) < x"
  proof -
    have "2 powi (?a - 1) / (2 powi ?b :: rat) = 2 powi (?a - 1 - ?b)"
      by (simp add: power_int_diff)
    then have "2 powi (?a - ?b - 1) = 2 powi (?a - 1) / (2 powi ?b :: rat)"
      by (simp add: algebra_simps)
    also have "\<dots> \<le> of_int n / 2 powi ?b"
      using na(1) by (intro divide_right_mono) simp_all
    also have "\<dots> < of_int n / of_int d"
      using db(2) npos dpos by (intro divide_strict_left_mono) (simp_all add: mult_pos_pos)
    finally show ?thesis by (simp add: x)
  qed
  have e: "float8_exponent x = (if 2 powi (?a - ?b) \<le> x then ?a - ?b else ?a - ?b - 1)"
    by (simp add: float8_exponent_def q Let_def)
  show "2 powi (float8_exponent x) \<le> x"
    using lower by (simp add: e)
  show "x < 2 powi (float8_exponent x + 1)"
    using upper by (auto simp: e not_le)
qed


lemma round_half_even_ge_int: "of_int m \<le> y \<Longrightarrow> m \<le> round_half_even y"
proof -
  assume "of_int m \<le> y"
  then have "m \<le> \<lfloor>y\<rfloor>" by (simp add: le_floor_iff)
  then show ?thesis by (simp add: round_half_even_def)
qed

lemma round_half_even_le_int: "y \<le> of_int m \<Longrightarrow> round_half_even y \<le> m"
proof -
  assume y: "y \<le> of_int m"
  show ?thesis
  proof (cases "y = of_int \<lfloor>y\<rfloor>")
    case True
    then have "y - of_int \<lfloor>y\<rfloor> < 1 / 2" by simp
    then have "round_half_even y = \<lfloor>y\<rfloor>" by (simp add: round_half_even_def)
    with y show ?thesis by (simp add: floor_le_iff)
  next
    case False
    with of_int_floor_le [of y] have "of_int \<lfloor>y\<rfloor> < y"
      by (metis order_le_imp_less_or_eq)
    with y have "of_int \<lfloor>y\<rfloor> < (of_int m :: rat)" by simp
    then have "\<lfloor>y\<rfloor> < m" by (simp only: of_int_less_iff)
    then show ?thesis by (simp add: round_half_even_def)
  qed
qed

lemma round_half_even_near: "of_int (round_half_even y) \<le> y + 1 / 2"
proof -
  have a: "y < of_int \<lfloor>y\<rfloor> + 1" by linarith
  have b: "of_int \<lfloor>y\<rfloor> \<le> y" by simp
  consider "y - of_int \<lfloor>y\<rfloor> < 1 / 2" | "1 / 2 \<le> y - of_int \<lfloor>y\<rfloor>" by linarith
  then show ?thesis
  proof cases
    case 1
    then have "(of_int (round_half_even y) :: rat) = of_int \<lfloor>y\<rfloor>"
      by (simp add: round_half_even_def)
    with b show ?thesis by linarith
  next
    case 2
    then have "round_half_even y \<le> \<lfloor>y\<rfloor> + 1" by (simp add: round_half_even_def)
    then have "(of_int (round_half_even y) :: rat) \<le> of_int (\<lfloor>y\<rfloor> + 1)"
      by (simp only: of_int_le_iff)
    with 2 show ?thesis by (simp only: of_int_add of_int_1)
  qed
qed

lemma round_half_even_even_cut:
  assumes "even n"
  shows "n \<le> round_half_even y \<longleftrightarrow> of_int n - 1 / 2 \<le> y"
proof (cases "of_int n \<le> y")
  case True
  then have "n \<le> round_half_even y" by (rule round_half_even_ge_int)
  with True show ?thesis by simp
next
  case False
  then have below: "y < of_int n" by simp
  then have fl: "\<lfloor>y\<rfloor> \<le> n - 1" by (simp add: floor_less_iff) 
  show ?thesis
  proof (cases "\<lfloor>y\<rfloor> = n - 1")
    case True
    with assms have odd: "odd \<lfloor>y\<rfloor>" by simp
    have diff: "y - of_int \<lfloor>y\<rfloor> = y - of_int n + 1" using True by simp
    have "round_half_even y = (if y - of_int \<lfloor>y\<rfloor> < 1 / 2 then \<lfloor>y\<rfloor> else \<lfloor>y\<rfloor> + 1)"
      using odd by (simp add: round_half_even_def)
    then have "round_half_even y = (if y - of_int n + 1 < 1 / 2 then n - 1 else n)"
      unfolding diff using True by simp
    then show ?thesis by auto
  next
    case False
    with fl have f2: "\<lfloor>y\<rfloor> \<le> n - 2" by simp
    then have "round_half_even y \<le> n - 1" by (simp add: round_half_even_def)
    moreover have "y < of_int (n - 2) + 1" using f2 by linarith
    ultimately show ?thesis by simp
  qed
qed


lemma float8_ulp_pos: "0 < float8_ulp x"
  by (simp add: float8_ulp_def)

lemma float8_round_minus: "float8_round (- x) = - float8_round x"
  by (simp add: float8_round_def)

lemma float8_round_pos:
  "0 < x \<Longrightarrow> float8_round x = of_int (round_half_even (x / float8_ulp x)) * float8_ulp x"
  by (simp add: float8_round_def)

lemma float8_round_nonpos: "x \<le> 0 \<Longrightarrow> float8_round x \<le> 0"
proof (cases "x = 0")
  case True
  then show ?thesis by (simp add: float8_round_def)
next
  case False
  assume "x \<le> 0"
  with False have neg: "x < 0" by simp
  have "(of_int 0 :: rat) \<le> \<bar>x\<bar> / float8_ulp \<bar>x\<bar>"
    using float8_ulp_pos [of "\<bar>x\<bar>"] by simp
  then have "0 \<le> round_half_even (\<bar>x\<bar> / float8_ulp \<bar>x\<bar>)"
    by (rule round_half_even_ge_int)
  then have "0 \<le> of_int (round_half_even (\<bar>x\<bar> / float8_ulp \<bar>x\<bar>)) * float8_ulp \<bar>x\<bar>"
    using float8_ulp_pos [of "\<bar>x\<bar>"] by simp
  with neg show ?thesis by (simp add: float8_round_def)
qed

lemma float8_round_ge_2: "2 \<le> float8_round x \<longleftrightarrow> 2 - 1 / 2 ^ 53 \<le> x"
proof (cases "0 < x")
  case False
  then have "float8_round x \<le> 0" by (simp add: float8_round_nonpos)
  with False show ?thesis by simp
next
  case True
  let ?e = "float8_exponent x"
  note bounds = float8_exponent_bounds [OF True]
  consider "1 \<le> ?e" | "?e = 0" | "?e \<le> - 1" by linarith
  then show ?thesis
  proof cases
    case 1
    then have ulp: "float8_ulp x = 2 powi (?e - 52)" by (simp add: float8_ulp_def max_def)
    have "(2::rat) powi 1 \<le> 2 powi ?e" using 1 by (intro power_int_increasing) simp_all
    then have two: "(2::rat) \<le> 2 powi ?e" by simp
    with bounds(1) have x2: "2 \<le> x" by simp
    have "2 powi ?e / 2 powi (?e - 52) \<le> x / 2 powi (?e - 52)"
      using bounds(1) by (intro divide_right_mono) simp_all
    moreover have "2 powi ?e / 2 powi (?e - 52) = (2::rat) powi 52"
      by (simp add: power_int_diff [symmetric])
    ultimately have "of_int (2 ^ 52) \<le> x / float8_ulp x" by (simp add: ulp)
    then have "2 ^ 52 \<le> round_half_even (x / float8_ulp x)" by (rule round_half_even_ge_int)
    then have "(of_int (2 ^ 52) :: rat) \<le> of_int (round_half_even (x / float8_ulp x))"
      by (simp only: of_int_le_iff)
    then have "of_int (2 ^ 52) * 2 powi (?e - 52) \<le> float8_round x"
      unfolding float8_round_pos [OF True] ulp by (intro mult_right_mono) simp_all
    moreover have "of_int (2 ^ 52) * 2 powi (?e - 52) = (2::rat) powi ?e"
    proof -
      have p52: "(of_int (2 ^ 52) :: rat) = 2 powi 52" by (simp add: power_int_def)
      have "of_int (2 ^ 52) * 2 powi (?e - 52) = (2::rat) powi 52 * 2 powi (?e - 52)"
        by (simp only: p52)
      also have "\<dots> = 2 powi (52 + (?e - 52))"
        by (rule power_int_add [symmetric]) simp
      also have "52 + (?e - 52) = ?e" by simp
      finally show ?thesis .
    qed
    ultimately have "2 \<le> float8_round x" using two by simp
    with x2 show ?thesis by simp
  next
    case 2
    then have ulp: "float8_ulp x = 1 / 2 ^ 52"
      by (simp add: float8_ulp_def power_int_minus inverse_eq_divide)
    have round: "float8_round x = of_int (round_half_even (x * 2 ^ 52)) / 2 ^ 52"
      by (simp add: float8_round_pos [OF True] ulp)
    have "2 \<le> float8_round x \<longleftrightarrow> (of_int (2 ^ 53) :: rat) \<le> of_int (round_half_even (x * 2 ^ 52))"
      unfolding round by (simp add: field_simps)
    also have "\<dots> \<longleftrightarrow> 2 ^ 53 \<le> round_half_even (x * 2 ^ 52)"
      by (simp only: of_int_le_iff)
    also have "\<dots> \<longleftrightarrow> of_int (2 ^ 53) - 1 / 2 \<le> x * 2 ^ 52"
      by (rule round_half_even_even_cut) simp
    also have "\<dots> \<longleftrightarrow> 2 - 1 / 2 ^ 53 \<le> x"
      by (simp add: field_simps)
    finally show ?thesis .
  next
    case 3
    have "(2::rat) powi (?e + 1) \<le> 2 powi 0" using 3 by (intro power_int_increasing) simp_all
    with bounds(2) have x1: "x < 1" by simp
    have "max (?e - 52) (- 1074) \<le> 0" using 3 by simp
    then have "(2::rat) powi (max (?e - 52) (- 1074)) \<le> 2 powi 0"
      by (intro power_int_increasing) simp_all
    then have ulp: "float8_ulp x \<le> 1" by (simp add: float8_ulp_def)
    have "float8_round x \<le> (x / float8_ulp x + 1 / 2) * float8_ulp x"
      unfolding float8_round_pos [OF True]
      using round_half_even_near [of "x / float8_ulp x"] float8_ulp_pos [of x]
      by (intro mult_right_mono) simp_all
    also have "\<dots> = x + float8_ulp x / 2"
      using float8_ulp_pos [of x] by (simp add: field_simps)
    also have "\<dots> < 2" using x1 ulp by simp
    finally have "float8_round x < 2" .
    with x1 show ?thesis by simp
  qed
qed

lemma float8_round_le_minus_2: "float8_round x \<le> - 2 \<longleftrightarrow> x \<le> - (2 - 1 / 2 ^ 53)"
proof -
  have flip: "(c \<le> - x) = (x \<le> - c)" for c :: rat by auto
  have "float8_round x \<le> - 2 \<longleftrightarrow> 2 \<le> float8_round (- x)"
    unfolding float8_round_minus by auto
  also have "\<dots> \<longleftrightarrow> 2 - 1 / 2 ^ 53 \<le> - x" by (rule float8_round_ge_2)
  also have "\<dots> \<longleftrightarrow> x \<le> - (2 - 1 / 2 ^ 53)" by (rule flip)
  finally show ?thesis .
qed

text \<open>
  Known values: the double nearest to 0.1 is \<open>3602879701896397 / 2 ^ 55\<close>; the doubles
  of 65.1 and 63.1 differ by \<open>2 - 2 ^ - 47\<close>, which PostgreSQL prints as
  1.999999999999993; those of 2.4 and 0.4 differ by a little less than 2, and the
  difference rounds to 2.
\<close>

lemma float8_round_tenth: "float8_round (1 / 10) = 3602879701896397 / 2 ^ 55"
  by code_simp

lemma float8_mi_651_631:
  "float8_mi (float8_round (651 / 10)) (float8_round (631 / 10)) = 2 - 1 / 2 ^ 47"
  by code_simp

lemma float8_mi_24_4:
  "float8_round (24 / 10) - float8_round (4 / 10) < 2
   \<and> float8_mi (float8_round (24 / 10)) (float8_round (4 / 10)) = 2"
  by code_simp

lemma sql_minus_scored: "sql_minus (Some l) (Some p) = Some (float8_round (l - p))"
  by (simp add: sql_minus_def float8_mi_def)

lemma trend_of_rule:
  "trend_of (Some l) (Some p) =
     (if 2 \<le> float8_round (l - p) then Improving
      else if float8_round (l - p) \<le> - 2 then Declining else Stable)"
  by (simp add: trend_of_def holds_def sql_is_null_def sql_ge_def sql_le_def sql_minus_scored)

lemma trend_of_exact:
  "trend_of (Some l) (Some p) =
     (if 2 - 1 / 2 ^ 53 \<le> l - p then Improving
      else if l - p \<le> - (2 - 1 / 2 ^ 53) then Declining else Stable)"
  unfolding trend_of_rule float8_round_ge_2 float8_round_le_minus_2 by (rule refl)

lemma trend_of_no_prior: "trend_of latest_score None = No_Data"
  by (simp add: trend_of_def holds_def sql_is_null_def)

text \<open>
  Claim C6, as the view computes it. For every enrollment, subject and year the view
  takes the assessments with a non-null normalized score (and a non-null enrollment),
  ordered by effective date descending, nulls last, with insertion time descending as
  the tie-break; rows that tie on both may come in any order, and the statement holds
  for each of them. The ordered rows are a permutation of these rows in which no later
  row is more recent than an earlier one. No such row gives no growth row; otherwise
  there is exactly one growth row, whose latest score is the first row's, whose prior
  score is the second row's (null when there is none) and whose growth is latest minus
  prior, subtracted in double precision. The trend is \<open>No Data\<close> on a null prior score,
  \<open>Improving\<close> when the growth is at least 2, \<open>Declining\<close> when it is at most -2, and
  \<open>Stable\<close> otherwise. The rounding of the difference moves the cut-off by half a unit
  in the last place: the growth is at least 2 exactly when the exact difference is at
  least \<open>2 - 2 ^ - 53\<close>. So a prior score of 70 gives \<open>Improving\<close> for 73, for 72.5 and
  for 72, and \<open>Declining\<close> for 67.9; from 63.1 to 65.1 the doubles differ by less than 2
  and the trend is \<open>Stable\<close>; from 0.4 to 2.4 the difference rounds to 2 and the trend is
  \<open>Improving\<close>.
\<close>

theorem growth_trend_last_two:
  assumes "admissible_order ord"
  shows "mset (ord (scored_partition rows k)) = mset (scored_partition rows k)
   \<and> sorted_wrt (\<lambda>x y. \<not> more_recent y x) (ord (scored_partition rows k))
   \<and> filter (\<lambda>g. (g_enrollment_id g, g_subject_area g, g_school_year g) = k) (v_growth_last_two ord rows) =
       (case ord (scored_partition rows k) of
          [] \<Rightarrow> []
        | a # rest \<Rightarrow>
            [\<lparr>g_enrollment_id = fst k, g_subject_area = fst (snd k), g_school_year = snd (snd k),
              g_latest_score = a_score_normalized a,
              g_prior_score = (case rest of [] \<Rightarrow> None | b # others \<Rightarrow> a_score_normalized b),
              g_growth = sql_minus (a_score_normalized a)
                           (case rest of [] \<Rightarrow> None | b # others \<Rightarrow> a_score_normalized b),
              g_trend = trend_of (a_score_normalized a)
                          (case rest of [] \<Rightarrow> None | b # others \<Rightarrow> a_score_normalized b)\<rparr>])
   \<and> sql_minus (Some l) (Some p) = Some (float8_round (l - p))
   \<and> trend_of latest_score None = No_Data
   \<and> trend_of (Some l) (Some p) =
       (if 2 \<le> float8_round (l - p) then Improving
        else if float8_round (l - p) \<le> - 2 then Declining else Stable)
   \<and> (2 \<le> float8_round (l - p) \<longleftrightarrow> 2 - 1 / 2 ^ 53 \<le> l - p)
   \<and> (float8_round (l - p) \<le> - 2 \<longleftrightarrow> l - p \<le> - (2 - 1 / 2 ^ 53))
   \<and> trend_of (Some 73) (Some 70) = Improving
   \<and> trend_of (Some (145 / 2)) (Some 70) = Improving
   \<and> trend_of (Some 72) (Some 70) = Improving
   \<and> trend_of (Some (float8_round (679 / 10))) (Some 70) = Declining
   \<and> trend_of (Some (float8_round (651 / 10))) (Some (float8_round (631 / 10))) = Stable
   \<and> trend_of (Some (float8_round (24 / 10))) (Some (float8_round (4 / 10))) = Improving"
proof -
  have exact_examples:
    "trend_of (Some 73) (Some 70) = Improving"
    "trend_of (Some (145 / 2)) (Some 70) = Improving"
    "trend_of (Some 72) (Some 70) = Improving"
    by (simp_all add: trend_of_exact)
  have rounded_examples:
    "trend_of (Some (float8_round (679 / 10))) (Some 70) = Declining"
    "trend_of (Some (float8_round (651 / 10))) (Some (float8_round (631 / 10))) = Stable"
    "trend_of (Some (float8_round (24 / 10))) (Some (float8_round (4 / 10))) = Improving"
    by code_simp+
  from admissible_mset [OF assms, of "scored_partition rows k"]
    admissible_sorted [OF assms, of "scored_partition rows k"]
    growth_lookup [OF assms, of k rows] sql_minus_scored [of l p]
    trend_of_no_prior [of latest_score] trend_of_rule [of l p]
    float8_round_ge_2 [of "l - p"] float8_round_le_minus_2 [of "l - p"]
    exact_examples rounded_examples
  show ?thesis by (intro conjI)
qed

text \<open>
  The theorem at work, with the stable sort as the ordering: a Fall score of 55 and a
  Winter score of 58 give one growth row, latest 58, prior 55, growth 3, \<open>Improving\<close>.
\<close>

theorem growth_trend_last_two_witness:
  "admissible_order order_by_recency
   \<and> map (\<lambda>g. (g_latest_score g, g_prior_score g, g_growth g, g_trend g))
       (filter (\<lambda>g. (g_enrollment_id g, g_subject_area g, g_school_year g)
                       = (Some 1, Some ''Math'', ''2024-25''))
          (v_growth_last_two order_by_recency
             [math_assessment ''Fall'' (Some 55) 10 1, math_assessment ''Winter'' (Some 58) 20 2]))
      = [(Some 58, Some 55, Some 3, Improving)]"
proof -
  let ?rows = "[math_assessment ''Fall'' (Some 55) 10 1, math_assessment ''Winter'' (Some 58) 20 2]"
  let ?k = "(Some (1::nat), Some ''Math'', ''2024-25'')"
  have ordered: "order_by_recency (scored_partition ?rows ?k)
                   = [math_assessment ''Winter'' (Some 58) 20 2, math_assessment ''Fall'' (Some 55) 10 1]"
    by code_simp
  have scores: "a_score_normalized (math_assessment ''Winter'' (Some 58) 20 2) = Some 58"
    "a_score_normalized (math_assessment ''Fall'' (Some 55) 10 1) = Some 55"
    by (simp_all add: math_assessment_def)
  have growth: "sql_minus (Some 58) (Some 55) = Some 3" by code_simp
  have trend: "trend_of (Some 58) (Some 55) = Improving" by (simp add: trend_of_exact)
  note lookup = growth_trend_last_two [OF order_by_recency_admissible, of ?rows ?k,
      THEN conjunct2, THEN conjunct2, THEN conjunct1]
  from lookup [unfolded ordered]
  have "filter (\<lambda>g. (g_enrollment_id g, g_subject_area g, g_school_year g) = ?k)
          (v_growth_last_two order_by_recency ?rows)
        = [\<lparr>g_enrollment_id = Some 1, g_subject_area = Some ''Math'', g_school_year = ''2024-25'',
            g_latest_score = Some 58, g_prior_score = Some 55, g_growth = Some 3,
            g_trend = Improving\<rparr>]"
    by (simp add: scores growth trend)
  then have "map (\<lambda>g. (g_latest_score g, g_prior_score g, g_growth g, g_trend g))
       (filter (\<lambda>g. (g_enrollment_id g, g_subject_area g, g_school_year g) = ?k)
          (v_growth_last_two order_by_recency ?rows))
      = [(Some 58, Some 55, Some 3, Improving)]"
    by simp
  with order_by_recency_admissible show ?thesis by (intro conjI)
qed

text \<open>
  The claim lists \<open>trend(prior = 70, latest = 72.5) = Stable\<close> among its examples; both
  scores are doubles and the growth there is 2.5, which the rule it states, and the
  view, class as \<open>Improving\<close>.
\<close>

theorem trend_boundary_counterexample:
  "trend_of (Some (145 / 2)) (Some 70) \<noteq> Stable"
  by (simp add: trend_of_exact)

section \<open>Missing thresholds\<close>

lemma left_join_no_match: "filter on rows = [] \<Longrightarrow> left_join on rows = [None]"
  by (simp add: left_join_def)

lemma left_join_nonempty [simp]: "left_join on rows \<noteq> []"
  by (simp add: left_join_def split: list.splits)

lemma support_rows_nonempty [simp]: "support_rows thresholds r \<noteq> []"
  by (simp add: support_rows_def)

lemma length_concat_nonempty:
  "(\<And>x. x \<in> set xs \<Longrightarrow> f x \<noteq> []) \<Longrightarrow> length xs \<le> length (concat (map f xs))"
proof (induction xs)
  case Nil
  then show ?case by simp
next
  case (Cons x xs)
  then have "f x \<noteq> []" by simp
  then have "1 \<le> length (f x)" by (cases "f x") simp_all
  moreover have "length xs \<le> length (concat (map f xs))"
    by (rule Cons.IH) (simp add: Cons.prems)
  ultimately show ?case by simp
qed

lemma roster_rows_kept:
  "length (v_teacher_roster ord current_date db) \<le> length (v_support_status ord current_date db)"
  unfolding v_support_status_def by (rule length_concat_nonempty) simp

lemma tier_without_thresholds:
  "tier_of score None None = (if score = None then Unknown else Core)"
  by (cases score) (simp_all add: tier_of_scored)

lemma support_status_without_thresholds:
  "support_status_of score None None = (if score = None then Status_Unknown else On_Track)"
  by (cases score) (simp_all add: support_status_of_scored)

text \<open>
  Claim C4, as the view computes it. When no row of \<^verbatim>\<open>benchmark_thresholds\<close> matches a
  roster row exactly on subject, assessment type, grade, period and year, the LEFT JOIN
  keeps the roster row with both thresholds null: it yields exactly one row of
  \<^verbatim>\<open>v_support_status\<close>, whose tier is Unknown when the latest score is null and Core
  (status On Track) when a score is present. No roster row is lost for want of a
  threshold: the view has at least as many rows as the roster.
\<close>

theorem missing_threshold_row:
  assumes "r \<in> set (v_teacher_roster ord current_date db)"
    and "\<forall>t \<in> set (benchmark_thresholds db). \<not> threshold_matches r t"
  shows "support_rows (benchmark_thresholds db) r = [support_row_of r None]
     \<and> support_row_of r None \<in> set (v_support_status ord current_date db)
     \<and> ss_support_threshold (support_row_of r None) = None
     \<and> ss_benchmark_threshold (support_row_of r None) = None
     \<and> ss_tier (support_row_of r None) = (if r_latest_score r = None then Unknown else Core)
     \<and> ss_support_status (support_row_of r None) =
         (if r_latest_score r = None then Status_Unknown else On_Track)
     \<and> length (v_teacher_roster ord current_date db) \<le> length (v_support_status ord current_date db)"
proof -
  from assms(2) have "filter (threshold_matches r) (benchmark_thresholds db) = []"
    by (simp add: filter_empty_conv)
  then have rows: "support_rows (benchmark_thresholds db) r = [support_row_of r None]"
    by (simp add: support_rows_def left_join_no_match)
  then have "support_row_of r None \<in> set (support_rows (benchmark_thresholds db) r)"
    by simp
  with assms(1) have present: "support_row_of r None \<in> set (v_support_status ord current_date db)"
    unfolding v_support_status_def set_concat set_map by blast
  have thresholds: "ss_support_threshold (support_row_of r None) = None"
    "ss_benchmark_threshold (support_row_of r None) = None"
    by (simp_all add: support_row_of_def)
  have tier: "ss_tier (support_row_of r None) = (if r_latest_score r = None then Unknown else Core)"
    by (simp add: support_row_of_def tier_without_thresholds)
  have status: "ss_support_status (support_row_of r None) =
         (if r_latest_score r = None then Status_Unknown else On_Track)"
    by (simp add: support_row_of_def support_status_without_thresholds)
  from rows present thresholds tier status roster_rows_kept [of ord current_date db]
  show ?thesis by (intro conjI)
qed

text \<open>
  The theorem at work: one Fall mathematics assessment with score 64 and an empty table
  of thresholds.
\<close>

theorem missing_threshold_row_witness:
  "v_teacher_roster order_by_recency 100 (example_db [math_assessment ''Fall'' (Some 64) 5 1] [] []) \<noteq> []
   \<and> benchmark_thresholds (example_db [math_assessment ''Fall'' (Some 64) 5 1] [] []) = []
   \<and> map ss_tier (v_support_status order_by_recency 100 (example_db [math_assessment ''Fall'' (Some 64) 5 1] [] [])) = [Core]
   \<and> ss_tier (support_row_of
         (hd (v_teacher_roster order_by_recency 100 (example_db [math_assessment ''Fall'' (Some 64) 5 1] [] []))) None) = Core"
proof -
  let ?db = "example_db [math_assessment ''Fall'' (Some 64) 5 1] [] []"
  let ?r = "hd (v_teacher_roster order_by_recency 100 ?db)"
  have roster: "v_teacher_roster order_by_recency 100 ?db \<noteq> []" by code_simp
  then have r: "?r \<in> set (v_teacher_roster order_by_recency 100 ?db)" by simp
  have none: "benchmark_thresholds ?db = []" by (simp add: example_db_def)
  then have no_match: "\<forall>t \<in> set (benchmark_thresholds ?db). \<not> threshold_matches ?r t" by simp
  have score: "r_latest_score ?r = Some 64" by code_simp
  have view: "map ss_tier (v_support_status order_by_recency 100 ?db) = [Core]" by code_simp
  from missing_threshold_row [OF r no_match] score
  have "ss_tier (support_row_of ?r None) = Core" by simp
  with roster none view show ?thesis by (intro conjI)
qed

text \<open>
  The claim says the tier is Unknown whenever no threshold row matches. With a score of
  64 and no threshold row at all the view reports On Track and Core.
\<close>

theorem missing_threshold_counterexample:
  "benchmark_thresholds (example_db [math_assessment ''Fall'' (Some 64) 5 1] [] []) = []
   \<and> map ss_tier (v_support_status order_by_recency 100 (example_db [math_assessment ''Fall'' (Some 64) 5 1] [] [])) \<noteq> [Unknown]
   \<and> map (\<lambda>s. (ss_enrollment_id s, ss_subject_area s, ss_latest_score s, ss_support_status s, ss_tier s))
        (v_support_status order_by_recency 100 (example_db [math_assessment ''Fall'' (Some 64) 5 1] [] []))
      = [(1, Some ''Math'', Some 64, On_Track, Core)]"
proof -
  let ?db = "example_db [math_assessment ''Fall'' (Some 64) 5 1] [] []"
  have none: "benchmark_thresholds ?db = []" by (simp add: example_db_def)
  have view: "map (\<lambda>s. (ss_enrollment_id s, ss_subject_area s, ss_latest_score s, ss_support_status s, ss_tier s))
        (v_support_status order_by_recency 100 ?db) = [(1, Some ''Math'', Some 64, On_Track, Core)]" by code_simp
  have tiers: "map ss_tier (v_support_status order_by_recency 100 ?db) = [Core]" by code_simp
  then have "map ss_tier (v_support_status order_by_recency 100 ?db) \<noteq> [Unknown]" by simp
  with none view show ?thesis by (intro conjI)
qed


section \<open>Joins of the roster and the intervention flag\<close>

lemma holds_and: "holds (sql_and p q) = (holds p \<and> holds q)"
  by (auto simp: holds_def sql_and_def)

lemma holds_or: "holds (sql_or p q) = (holds p \<or> holds q)"
  by (auto simp: holds_def sql_or_def)

lemma holds_eq: "holds (sql_eq a b) = (\<exists>v. a = Some v \<and> b = Some v)"
  by (cases a; cases b) (auto simp: holds_def sql_eq_def)

lemma holds_is_null: "holds (sql_is_null a) = (a = None)"
  by (simp add: holds_def sql_is_null_def)

lemma holds_is_not_null: "holds (sql_is_not_null a) = (a \<noteq> None)"
  by (simp add: holds_def sql_is_not_null_def)

lemma holds_false [simp]: "\<not> holds (Some False)"
  by (simp add: holds_def)

lemma holds_in:
  "holds (sql_in x vs) = (\<exists>v. x = Some v \<and> Some v \<in> set vs)"
  by (induction vs) (auto simp: holds_or holds_eq)

lemma left_join_alt:
  "left_join on rows = (if filter on rows = [] then [None] else map Some (filter on rows))"
  by (simp add: left_join_def split: list.splits)

lemma left_join_cases:
  "x \<in> set (left_join on rows) \<longleftrightarrow>
     (x = None \<and> filter on rows = []) \<or> (\<exists>m. x = Some m \<and> m \<in> set rows \<and> on m)"
  by (auto simp: left_join_alt filter_empty_conv)

lemma roster_member:
  "r \<in> set (v_teacher_roster ord current_date db) \<longleftrightarrow>
     (\<exists>e \<in> set (student_enrollments db). \<exists>s \<in> set (students_core db).
        holds (sql_eq (Some (s_student_uuid s)) (e_student_uuid e))
        \<and> (\<exists>l \<in> set (left_join
               (\<lambda>l. holds (sql_and (sql_eq (l_enrollment_id l) (Some (e_enrollment_id e)))
                                   (sql_eq (Some (l_school_year l)) (e_school_year e))))
               (latest ord (assessments db))).
             \<exists>ai \<in> set (left_join (\<lambda>ai. holds (sql_eq (ai_enrollment_id ai) (Some (e_enrollment_id e))))
                          (active_intervention (interventions db))).
               r = roster_row_of current_date e s l ai))"
  by (auto simp: v_teacher_roster_def)

lemma status_test:
  "holds (sql_or (sql_is_null status)
            (sql_in (sql_lower (sql_trim status)) [Some ''active'', Some ''in progress'', Some ''ongoing'']))
     = counts_as_active status"
  by (cases status)
     (auto simp: holds_or holds_in holds_is_null sql_lower_def sql_trim_def counts_as_active_def
        simp del: sql_in.simps)

lemma active_intervention_alt:
  "active_intervention ivs =
     map (\<lambda>(eid, g). \<lparr>ai_enrollment_id = eid, ai_has_active_intervention = True\<rparr>)
       (group_by i_enrollment_id
          (filter (\<lambda>i. i_enrollment_id i \<noteq> None \<and> counts_as_active (i_status i)) ivs))"
  unfolding active_intervention_def holds_and holds_is_not_null status_test by (rule refl)

lemma active_intervention_filter:
  "filter (\<lambda>ai. holds (sql_eq (ai_enrollment_id ai) (Some eid))) (active_intervention ivs) = [] \<longleftrightarrow>
     \<not> (\<exists>i \<in> set ivs. i_enrollment_id i = Some eid \<and> counts_as_active (i_status i))"
  unfolding active_intervention_alt
  by (auto simp: group_by_def filter_empty_conv holds_eq)

lemma active_intervention_flag:
  "ai \<in> set (active_intervention ivs) \<Longrightarrow> ai_has_active_intervention ai"
  by (auto simp: active_intervention_def)

lemma joined_flag:
  assumes "ai \<in> set (left_join (\<lambda>ai. holds (sql_eq (ai_enrollment_id ai) (Some eid)))
                      (active_intervention ivs))"
  shows "sql_coalesce (map_option ai_has_active_intervention ai) False =
           (\<exists>i \<in> set ivs. i_enrollment_id i = Some eid \<and> counts_as_active (i_status i))"
proof (cases ai)
  case None
  with assms have "filter (\<lambda>ai. holds (sql_eq (ai_enrollment_id ai) (Some eid))) (active_intervention ivs) = []"
    by (simp add: left_join_cases)
  with None show ?thesis
    by (simp only: active_intervention_filter) (simp add: sql_coalesce_def)
next
  case (Some m)
  with assms have m: "m \<in> set (active_intervention ivs)" "holds (sql_eq (ai_enrollment_id m) (Some eid))"
    by (simp_all add: left_join_cases)
  then have "filter (\<lambda>ai. holds (sql_eq (ai_enrollment_id ai) (Some eid))) (active_intervention ivs) \<noteq> []"
    by (auto simp: filter_empty_conv)
  then have "\<exists>i \<in> set ivs. i_enrollment_id i = Some eid \<and> counts_as_active (i_status i)"
    by (simp only: active_intervention_filter) simp
  with Some m(1) show ?thesis
    by (simp add: sql_coalesce_def active_intervention_flag)
qed

text \<open>
  Claim C3, as the view computes it. In every row of the roster the flag
  \<^verbatim>\<open>has_active_intervention\<close> is true exactly when some intervention of that
  enrollment, whatever its subject, has a null status or a status that equals
  \<open>active\<close>, \<open>in progress\<close> or \<open>ongoing\<close> once blanks at both ends are removed and
  capitals are lowered. The match is on the whole status, not on a part of it.
\<close>

theorem roster_intervention_flag:
  assumes "r \<in> set (v_teacher_roster ord current_date db)"
  shows "r_has_active_intervention r =
           (\<exists>i \<in> set (interventions db).
              i_enrollment_id i = Some (r_enrollment_id r) \<and> counts_as_active (i_status i))"
proof -
  from assms obtain e s l ai where
    ai: "ai \<in> set (left_join (\<lambda>ai. holds (sql_eq (ai_enrollment_id ai) (Some (e_enrollment_id e))))
                      (active_intervention (interventions db)))"
    and r: "r = roster_row_of current_date e s l ai"
    unfolding roster_member by blast
  from r have "r_has_active_intervention r = sql_coalesce (map_option ai_has_active_intervention ai) False"
    and "r_enrollment_id r = e_enrollment_id e"
    by (simp_all add: roster_row_of_def)
  with joined_flag [OF ai] show ?thesis by simp
qed

text \<open>
  The theorem at work: a Reading intervention with status \<open>'' In Progress ''\<close> sets the
  flag of the enrollment's Math row.
\<close>

theorem roster_intervention_flag_witness:
  "v_teacher_roster order_by_recency 100
      (example_db [math_assessment ''Fall'' (Some 64) 5 1]
         [intervention_for_1 ''Reading'' (Some '' In Progress '')] []) \<noteq> []
   \<and> r_subject_area (hd (v_teacher_roster order_by_recency 100
        (example_db [math_assessment ''Fall'' (Some 64) 5 1]
           [intervention_for_1 ''Reading'' (Some '' In Progress '')] []))) = Some ''Math''
   \<and> counts_as_active (Some '' In Progress '')
   \<and> r_has_active_intervention (hd (v_teacher_roster order_by_recency 100
        (example_db [math_assessment ''Fall'' (Some 64) 5 1]
           [intervention_for_1 ''Reading'' (Some '' In Progress '')] [])))"
proof -
  let ?db = "example_db [math_assessment ''Fall'' (Some 64) 5 1]
               [intervention_for_1 ''Reading'' (Some '' In Progress '')] []"
  let ?r = "hd (v_teacher_roster order_by_recency 100 ?db)"
  have roster: "v_teacher_roster order_by_recency 100 ?db \<noteq> []" by code_simp
  then have r: "?r \<in> set (v_teacher_roster order_by_recency 100 ?db)" by simp
  have subject: "r_subject_area ?r = Some ''Math''" by code_simp
  have eid: "r_enrollment_id ?r = 1" by code_simp
  have status: "counts_as_active (Some '' In Progress '')" by code_simp
  have "interventions ?db = [intervention_for_1 ''Reading'' (Some '' In Progress '')]"
    by (simp add: example_db_def)
  with status eid have "\<exists>i \<in> set (interventions ?db).
      i_enrollment_id i = Some (r_enrollment_id ?r) \<and> counts_as_active (i_status i)"
    by (simp add: intervention_for_1_def)
  with roster_intervention_flag [OF r] have "r_has_active_intervention ?r" by simp
  with roster subject status show ?thesis by (intro conjI)
qed

text \<open>
  The claim ties the flag to the subject and to a substring match. A Reading
  intervention with status \<open>Active\<close> sets the flag of the Math row, where the claim has
  no active intervention; a Math intervention with status \<open>Active (weekly)\<close> contains
  the word and leaves the flag false.
\<close>

theorem intervention_flag_counterexample:
  "map (\<lambda>r. (r_subject_area r, r_has_active_intervention r))
     (v_teacher_roster order_by_recency 100
        (example_db [math_assessment ''Fall'' (Some 64) 5 1]
           [intervention_for_1 ''Reading'' (Some ''Active'')] [])) = [(Some ''Math'', True)]
   \<and> \<not> spec_has_active_intervention [intervention_for_1 ''Reading'' (Some ''Active'')] 1 (Some ''Math'')
   \<and> map (\<lambda>r. (r_subject_area r, r_has_active_intervention r))
       (v_teacher_roster order_by_recency 100
          (example_db [math_assessment ''Fall'' (Some 64) 5 1]
             [intervention_for_1 ''Math'' (Some ''Active (weekly)'')] [])) = [(Some ''Math'', False)]
   \<and> spec_has_active_intervention [intervention_for_1 ''Math'' (Some ''Active (weekly)'')] 1 (Some ''Math'')"
proof -
  have other_subject: "map (\<lambda>r. (r_subject_area r, r_has_active_intervention r))
     (v_teacher_roster order_by_recency 100
        (example_db [math_assessment ''Fall'' (Some 64) 5 1]
           [intervention_for_1 ''Reading'' (Some ''Active'')] [])) = [(Some ''Math'', True)]"
    by code_simp
  have spec_other_subject:
    "\<not> spec_has_active_intervention [intervention_for_1 ''Reading'' (Some ''Active'')] 1 (Some ''Math'')"
    by (simp add: spec_has_active_intervention_def intervention_for_1_def)
  have longer_status: "map (\<lambda>r. (r_subject_area r, r_has_active_intervention r))
       (v_teacher_roster order_by_recency 100
          (example_db [math_assessment ''Fall'' (Some 64) 5 1]
             [intervention_for_1 ''Math'' (Some ''Active (weekly)'')] [])) = [(Some ''Math'', False)]"
    by code_simp
  have spec_longer_status:
    "spec_has_active_intervention [intervention_for_1 ''Math'' (Some ''Active (weekly)'')] 1 (Some ''Math'')"
    by code_simp
  from other_subject spec_other_subject longer_status spec_longer_status
  show ?thesis by (intro conjI)
qed


section \<open>Enrollments without assessments\<close>

lemma latest_member:
  assumes adm: "admissible_order ord" and "m \<in> set (latest ord rows)"
  shows "\<exists>a \<in> set rows. m = latest_of a"
proof -
  let ?kept = "filter (\<lambda>a. holds (sql_is_not_null (a_enrollment_id a))) rows"
  from assms(2) obtain p where p: "p \<in> set (group_by latest_key ?kept)"
    and mp: "m \<in> set ((\<lambda>(k, g). case ord g of [] \<Rightarrow> [] | a # others \<Rightarrow> [latest_of a]) p)"
    unfolding latest_def set_concat set_map by blast
  obtain k g where pk: "p = (k, g)" by (cases p)
  from p pk have g: "(k, g) \<in> set (group_by latest_key ?kept)" by simp
  from mp pk have m: "m \<in> set (case ord g of [] \<Rightarrow> [] | a # others \<Rightarrow> [latest_of a])"
    by (simp only: prod.case)
  from m obtain a others where sorted: "ord g = a # others" and "m = latest_of a"
    by (cases "ord g") simp_all
  from sorted have "a \<in> set (ord g)" by simp
  then have "a \<in> set g" by (simp only: admissible_set [OF adm])
  moreover from g have "set g \<subseteq> set rows"
    by (auto dest: group_by_member)
  ultimately show ?thesis using \<open>m = latest_of a\<close> by blast
qed

lemma support_member:
  "ss \<in> set (v_support_status ord current_date db) \<longleftrightarrow>
     (\<exists>r \<in> set (v_teacher_roster ord current_date db).
        \<exists>t \<in> set (left_join (threshold_matches r) (benchmark_thresholds db)). ss = support_row_of r t)"
  by (auto simp: v_support_status_def support_rows_def)

lemma priority_member:
  "p \<in> set (v_priority_students ord_latest ord_ranked current_date db) \<longleftrightarrow>
     (\<exists>ss \<in> set (v_support_status ord_latest current_date db).
        \<exists>g \<in> set (left_join (growth_matches ss) (v_growth_last_two ord_ranked (assessments db))).
          p = priority_row_of ss g)"
  by (auto simp: v_priority_students_def priority_rows_def)

lemma left_join_some_element: "\<exists>x. x \<in> set (left_join on rows)"
  using left_join_nonempty [of on rows] by (cases "left_join on rows") auto

text \<open>Without assessments the LEFT JOIN on \<^verbatim>\<open>latest\<close> finds nothing.\<close>

lemma no_latest_row:
  assumes adm: "admissible_order ord"
    and none: "\<forall>a \<in> set (assessments db). a_enrollment_id a \<noteq> Some eid"
    and l: "l \<in> set (left_join
               (\<lambda>l. holds (sql_and (sql_eq (l_enrollment_id l) (Some eid))
                                   (sql_eq (Some (l_school_year l)) year)))
               (latest ord (assessments db)))"
  shows "l = None"
proof (cases l)
  case None
  then show ?thesis .
next
  case (Some m)
  with l have "m \<in> set (latest ord (assessments db))" and "l_enrollment_id m = Some eid"
    by (auto simp: left_join_cases holds_and holds_eq)
  then obtain a where "a \<in> set (assessments db)" "a_enrollment_id a = Some eid"
    by (auto dest!: latest_member [OF adm] simp: latest_of_def)
  with none show ?thesis by blast
qed

lemma unassessed_roster_row:
  assumes adm: "admissible_order ord"
    and none: "\<forall>a \<in> set (assessments db). a_enrollment_id a \<noteq> Some eid"
    and member: "r \<in> set (v_teacher_roster ord current_date db)" and id: "r_enrollment_id r = eid"
  shows "r_subject_area r = None \<and> r_latest_score r = None \<and> r_days_since_assessment r = None"
proof -
  from member obtain e s l ai where
    l: "l \<in> set (left_join
               (\<lambda>l. holds (sql_and (sql_eq (l_enrollment_id l) (Some (e_enrollment_id e)))
                                   (sql_eq (Some (l_school_year l)) (e_school_year e))))
               (latest ord (assessments db)))"
    and r: "r = roster_row_of current_date e s l ai"
    unfolding roster_member by blast
  from r id have "e_enrollment_id e = eid" by (simp add: roster_row_of_def)
  with l have "l = None" using no_latest_row [OF adm none] by blast
  with r show ?thesis by (simp add: roster_row_of_def)
qed

lemma enrollment_in_roster:
  assumes "e \<in> set (student_enrollments db)"
    and "\<exists>s \<in> set (students_core db). e_student_uuid e = Some (s_student_uuid s)"
  shows "\<exists>r \<in> set (v_teacher_roster ord current_date db). r_enrollment_id r = e_enrollment_id e"
proof -
  from assms(2) obtain s where s: "s \<in> set (students_core db)"
    "holds (sql_eq (Some (s_student_uuid s)) (e_student_uuid e))"
    by (auto simp: holds_eq)
  obtain l where l: "l \<in> set (left_join
               (\<lambda>l. holds (sql_and (sql_eq (l_enrollment_id l) (Some (e_enrollment_id e)))
                                   (sql_eq (Some (l_school_year l)) (e_school_year e))))
               (latest ord (assessments db)))"
    using left_join_some_element by blast
  obtain ai where ai: "ai \<in> set (left_join (\<lambda>ai. holds (sql_eq (ai_enrollment_id ai) (Some (e_enrollment_id e))))
                          (active_intervention (interventions db)))"
    using left_join_some_element by blast
  from assms(1) s l ai have "roster_row_of current_date e s l ai \<in> set (v_teacher_roster ord current_date db)"
    unfolding roster_member by blast
  moreover have "r_enrollment_id (roster_row_of current_date e s l ai) = e_enrollment_id e"
    by (simp add: roster_row_of_def)
  ultimately show ?thesis by blast
qed

lemma unassessed_support_row:
  assumes adm: "admissible_order ord"
    and none: "\<forall>a \<in> set (assessments db). a_enrollment_id a \<noteq> Some eid"
    and member: "ss \<in> set (v_support_status ord current_date db)" and id: "ss_enrollment_id ss = eid"
  shows "ss_support_status ss = Status_Unknown \<and> ss_tier ss = Unknown \<and> ss_latest_score ss = None
         \<and> ss_days_since_assessment ss = None \<and> ss_subject_area ss = None"
proof -
  from member obtain r t where r: "r \<in> set (v_teacher_roster ord current_date db)"
    and ss: "ss = support_row_of r t"
    unfolding support_member by blast
  from ss id have "r_enrollment_id r = eid" by (simp add: support_row_of_def)
  from unassessed_roster_row [OF adm none r this] ss show ?thesis
    by (simp add: support_row_of_def)
qed

lemma priority_score_nothing: "priority_score Unknown None None ai = 0"
  unfolding priority_score_def tier_points trend_points recency_points gap_points by simp

lemma reasons_nothing: "reasons Unknown None None ai = []"
  unfolding reasons_join fired_reasons_def by simp

lemma unassessed_priority_row:
  assumes adm: "admissible_order ord_latest"
    and none: "\<forall>a \<in> set (assessments db). a_enrollment_id a \<noteq> Some eid"
    and member: "p \<in> set (v_priority_students ord_latest ord_ranked current_date db)"
    and id: "pr_enrollment_id p = eid"
  shows "pr_support_status p = Status_Unknown \<and> pr_tier p = Unknown \<and> pr_latest_score p = None
         \<and> pr_days_since_assessment p = None \<and> pr_trend p = None
         \<and> pr_priority_score p = 0 \<and> pr_reasons p = []"
proof -
  from member obtain ss g where ss: "ss \<in> set (v_support_status ord_latest current_date db)"
    and g: "g \<in> set (left_join (growth_matches ss) (v_growth_last_two ord_ranked (assessments db)))"
    and p: "p = priority_row_of ss g"
    unfolding priority_member by blast
  from p id have "ss_enrollment_id ss = eid" by (simp add: priority_row_of_def)
  from unassessed_support_row [OF adm none ss this]
  have fields: "ss_support_status ss = Status_Unknown" "ss_tier ss = Unknown" "ss_latest_score ss = None"
    "ss_days_since_assessment ss = None" "ss_subject_area ss = None"
    by simp_all
  have "\<not> growth_matches ss m" for m
    by (simp add: growth_matches_def holds_and holds_eq fields)
  with g have "g = None" by (auto simp: left_join_cases)
  with p fields show ?thesis
    by (simp add: priority_row_of_def priority_score_nothing reasons_nothing)
qed


lemma roster_row_in_support:
  assumes "r \<in> set (v_teacher_roster ord current_date db)"
  shows "\<exists>ss \<in> set (v_support_status ord current_date db). ss_enrollment_id ss = r_enrollment_id r"
proof -
  obtain t where "t \<in> set (left_join (threshold_matches r) (benchmark_thresholds db))"
    using left_join_some_element by blast
  with assms have "support_row_of r t \<in> set (v_support_status ord current_date db)"
    unfolding support_member by blast
  moreover have "ss_enrollment_id (support_row_of r t) = r_enrollment_id r"
    by (simp add: support_row_of_def)
  ultimately show ?thesis by blast
qed

lemma support_row_in_priority:
  assumes "ss \<in> set (v_support_status ord_latest current_date db)"
  shows "\<exists>p \<in> set (v_priority_students ord_latest ord_ranked current_date db).
           pr_enrollment_id p = ss_enrollment_id ss"
proof -
  obtain g where "g \<in> set (left_join (growth_matches ss) (v_growth_last_two ord_ranked (assessments db)))"
    using left_join_some_element by blast
  with assms have "priority_row_of ss g \<in> set (v_priority_students ord_latest ord_ranked current_date db)"
    unfolding priority_member by blast
  moreover have "pr_enrollment_id (priority_row_of ss g) = ss_enrollment_id ss"
    by (simp add: priority_row_of_def)
  ultimately show ?thesis by blast
qed

text \<open>
  Claim C10. An enrollment of the table \<^verbatim>\<open>student_enrollments\<close> that has no assessment
  row at all still has a row in \<^verbatim>\<open>v_support_status\<close> and in
  \<^verbatim>\<open>v_priority_students\<close>, and every row of these views for it carries support status
  \<open>Unknown\<close>, tier \<open>Unknown\<close>, a null latest score, null days since the assessment,
  priority score 0 and the empty reasons string, however the views order tied rows. The
  roster joins each enrollment to its person with an inner join; that the person exists
  is the foreign key of \<^verbatim>\<open>student_enrollments.student_uuid\<close>, whose declaration is not
  part of the migration, and is taken as a hypothesis.
\<close>

theorem unassessed_enrollment_kept:
  assumes "admissible_order ord"
    and "e \<in> set (student_enrollments db)"
    and "\<exists>s \<in> set (students_core db). e_student_uuid e = Some (s_student_uuid s)"
    and "\<forall>a \<in> set (assessments db). a_enrollment_id a \<noteq> Some (e_enrollment_id e)"
  shows "(\<exists>ss \<in> set (v_support_status ord current_date db). ss_enrollment_id ss = e_enrollment_id e)
     \<and> (\<exists>p \<in> set (v_priority_students ord ord_ranked current_date db).
          pr_enrollment_id p = e_enrollment_id e)
     \<and> (\<forall>ss \<in> set (v_support_status ord current_date db).
          ss_enrollment_id ss = e_enrollment_id e \<longrightarrow>
            ss_support_status ss = Status_Unknown \<and> ss_tier ss = Unknown
            \<and> support_status_text (ss_support_status ss) = ''Unknown''
            \<and> tier_text (ss_tier ss) = ''Unknown''
            \<and> ss_latest_score ss = None \<and> ss_days_since_assessment ss = None)
     \<and> (\<forall>p \<in> set (v_priority_students ord ord_ranked current_date db).
          pr_enrollment_id p = e_enrollment_id e \<longrightarrow>
            pr_support_status p = Status_Unknown \<and> pr_tier p = Unknown
            \<and> support_status_text (pr_support_status p) = ''Unknown''
            \<and> tier_text (pr_tier p) = ''Unknown''
            \<and> pr_latest_score p = None \<and> pr_days_since_assessment p = None
            \<and> pr_priority_score p = 0 \<and> pr_reasons p = [])"
proof -
  from enrollment_in_roster [OF assms(2,3)] obtain r where
    r: "r \<in> set (v_teacher_roster ord current_date db)" "r_enrollment_id r = e_enrollment_id e"
    by blast
  from roster_row_in_support [OF r(1)] r(2) obtain ss where
    ss: "ss \<in> set (v_support_status ord current_date db)" "ss_enrollment_id ss = e_enrollment_id e"
    by auto
  from support_row_in_priority [OF ss(1)] ss(2)
  have in_priority: "\<exists>p \<in> set (v_priority_students ord ord_ranked current_date db).
      pr_enrollment_id p = e_enrollment_id e"
    by auto
  from ss have in_support: "\<exists>ss \<in> set (v_support_status ord current_date db). ss_enrollment_id ss = e_enrollment_id e"
    by blast
  have support_fields: "\<forall>ss \<in> set (v_support_status ord current_date db).
          ss_enrollment_id ss = e_enrollment_id e \<longrightarrow>
            ss_support_status ss = Status_Unknown \<and> ss_tier ss = Unknown
            \<and> support_status_text (ss_support_status ss) = ''Unknown''
            \<and> tier_text (ss_tier ss) = ''Unknown''
            \<and> ss_latest_score ss = None \<and> ss_days_since_assessment ss = None"
    using unassessed_support_row [OF assms(1,4)] by fastforce
  have priority_fields: "\<forall>p \<in> set (v_priority_students ord ord_ranked current_date db).
          pr_enrollment_id p = e_enrollment_id e \<longrightarrow>
            pr_support_status p = Status_Unknown \<and> pr_tier p = Unknown
            \<and> support_status_text (pr_support_status p) = ''Unknown''
            \<and> tier_text (pr_tier p) = ''Unknown''
            \<and> pr_latest_score p = None \<and> pr_days_since_assessment p = None
            \<and> pr_priority_score p = 0 \<and> pr_reasons p = []"
    using unassessed_priority_row [OF assms(1,4)] by fastforce
  from in_support in_priority support_fields priority_fields show ?thesis by (intro conjI)
qed

text \<open>
  The theorem at work: the one enrollment of a database without assessments,
  interventions and thresholds.
\<close>

theorem unassessed_enrollment_kept_witness:
  "admissible_order order_by_recency
   \<and> enrollment_1 \<in> set (student_enrollments (example_db [] [] []))
   \<and> e_student_uuid enrollment_1 = Some (s_student_uuid person_7)
   \<and> assessments (example_db [] [] []) = []
   \<and> (\<exists>p \<in> set (v_priority_students order_by_recency order_by_recency 100 (example_db [] [] [])).
         pr_enrollment_id p = 1 \<and> pr_tier p = Unknown \<and> pr_support_status p = Status_Unknown
         \<and> pr_latest_score p = None \<and> pr_days_since_assessment p = None
         \<and> pr_priority_score p = 0 \<and> pr_reasons p = [])
   \<and> map (\<lambda>p. (pr_enrollment_id p, pr_subject_area p, pr_tier p, pr_priority_score p, pr_reasons p))
        (v_priority_students order_by_recency order_by_recency 100 (example_db [] [] []))
      = [(1, None, Unknown, 0, [])]"
proof -
  let ?db = "example_db [] [] []"
  have e: "enrollment_1 \<in> set (student_enrollments ?db)" by (simp add: example_db_def)
  have uuid: "e_student_uuid enrollment_1 = Some (s_student_uuid person_7)"
    by (simp add: enrollment_1_def person_7_def)
  then have fk: "\<exists>s \<in> set (students_core ?db). e_student_uuid enrollment_1 = Some (s_student_uuid s)"
    by (simp add: example_db_def)
  have none: "assessments ?db = []" by (simp add: example_db_def)
  then have no_rows: "\<forall>a \<in> set (assessments ?db). a_enrollment_id a \<noteq> Some (e_enrollment_id enrollment_1)"
    by simp
  have id: "e_enrollment_id enrollment_1 = 1" by (simp add: enrollment_1_def)
  from unassessed_enrollment_kept [OF order_by_recency_admissible e fk no_rows, of 100 order_by_recency]
  have row: "\<exists>p \<in> set (v_priority_students order_by_recency order_by_recency 100 ?db).
         pr_enrollment_id p = 1 \<and> pr_tier p = Unknown \<and> pr_support_status p = Status_Unknown
         \<and> pr_latest_score p = None \<and> pr_days_since_assessment p = None
         \<and> pr_priority_score p = 0 \<and> pr_reasons p = []"
    unfolding id by fastforce
  have view: "map (\<lambda>p. (pr_enrollment_id p, pr_subject_area p, pr_tier p, pr_priority_score p, pr_reasons p))
        (v_priority_students order_by_recency order_by_recency 100 ?db) = [(1, None, Unknown, 0, [])]"
    by code_simp
  from order_by_recency_admissible e uuid none row view show ?thesis by (intro conjI)
qed


section \<open>Cohort aggregates\<close>

lemma map_filter_present:
  "List.map_filter f (filter (\<lambda>x. f x \<noteq> None) xs) = List.map_filter f xs"
  by (induction xs) (auto simp: List.map_filter_simps split: option.splits)

lemma map_filter_empty:
  "List.map_filter f xs = [] \<longleftrightarrow> (\<forall>x \<in> set xs. f x = None)"
  by (induction xs) (auto simp: List.map_filter_simps split: option.splits)

lemma percentile_cont_null: "percentile_cont f vals = None \<longleftrightarrow> vals = []"
proof -
  have "length (sort vals) = 0 \<longleftrightarrow> vals = []" by simp
  then show ?thesis by (simp add: percentile_cont_def Let_def del: length_sort length_0_conv)
qed

lemma count_not_null:
  "sql_count_filter (\<lambda>r. sql_is_not_null (f r)) g = int (length (filter (\<lambda>r. f r \<noteq> None) g))"
  by (simp add: sql_count_filter_def holds_is_not_null)

lemma kpi_total: "k_total_students (kpi_row_of k g) = int (length g)"
  by (simp add: kpi_row_of_def)

lemma kpi_assessed:
  "k_assessed_students (kpi_row_of k g) = int (length (filter (\<lambda>r. r_latest_score r \<noteq> None) g))"
  by (simp add: kpi_row_of_def count_not_null)

lemma kpi_median:
  "k_median_days_since (kpi_row_of k g) =
     percentile_cont (1 / 2) (List.map_filter r_days_since_assessment g)"
  by (simp add: kpi_row_of_def holds_is_not_null map_filter_present del: not_None_eq)

lemma kpi_lookup:
  "filter (\<lambda>kr. (k_teacher_name kr, k_school_year kr, k_subject_area kr) = k)
     (v_teacher_kpis ord current_date db) =
   (if k \<in> kpi_key ` set (v_teacher_roster ord current_date db)
    then [kpi_row_of k (filter (\<lambda>r. kpi_key r = k) (v_teacher_roster ord current_date db))]
    else [])"
proof -
  have "filter (\<lambda>kr. (k_teacher_name kr, k_school_year kr, k_subject_area kr) = k)
          (v_teacher_kpis ord current_date db)
        = map (\<lambda>(k, g). kpi_row_of k g)
            (filter (\<lambda>(k', g). k' = k) (group_by kpi_key (v_teacher_roster ord current_date db)))"
    by (simp add: v_teacher_kpis_def filter_map comp_def split_def kpi_row_of_def)
  then show ?thesis by (simp only: group_by_lookup) simp
qed

lemma group_sizes:
  "sum_list (map (\<lambda>(k, g). int (length g)) (group_by key rows)) = int (length rows)"
proof -
  have count: "length (filter (\<lambda>r. key r = k) rows) = count_list (map key rows) k" for k
    by (induction rows) auto
  have "sum_list (map (\<lambda>(k, g). length g) (group_by key rows))
        = sum_list (map (\<lambda>k. count_list (map key rows) k) (remdups (map key rows)))"
    by (simp add: group_by_def comp_def count)
  also have "\<dots> = sum (count_list (map key rows)) (set (map key rows))"
    by (simp add: sum_list_distinct_conv_sum_set)
  also have "\<dots> = length (map key rows)"
    by (rule sum_count_set) simp_all
  finally have "sum_list (map (\<lambda>(k, g). length g) (group_by key rows)) = length rows"
    by simp
  then have "int (sum_list (map (\<lambda>(k, g). length g) (group_by key rows))) = int (length rows)"
    by simp
  then show ?thesis
    by (simp add: split_def comp_def flip: sum_list_of_nat) 
qed

lemma kpi_totals_sum:
  "sum_list (map k_total_students (v_teacher_kpis ord current_date db))
     = int (length (v_teacher_roster ord current_date db))"
  using group_sizes [of kpi_key "v_teacher_roster ord current_date db"]
  by (simp add: v_teacher_kpis_def comp_def split_def kpi_total)

lemma kpi_member:
  "kr \<in> set (v_teacher_kpis ord current_date db) \<longleftrightarrow>
     (\<exists>r \<in> set (v_teacher_roster ord current_date db).
        kr = kpi_row_of (kpi_key r)
               (filter (\<lambda>r'. kpi_key r' = kpi_key r) (v_teacher_roster ord current_date db)))"
  by (auto simp: v_teacher_kpis_def group_by_def)

lemma kpi_group_of: "kpi_group roster (kpi_row_of k g) = filter (\<lambda>r. kpi_key r = k) roster"
  by (simp add: kpi_group_def kpi_row_of_def)

lemma kpi_row_from_group:
  assumes "kr \<in> set (v_teacher_kpis ord current_date db)"
  shows "kr = kpi_row_of (k_teacher_name kr, k_school_year kr, k_subject_area kr)
                (kpi_group (v_teacher_roster ord current_date db) kr)"
proof -
  from assms obtain r where
    kr: "kr = kpi_row_of (kpi_key r)
               (filter (\<lambda>r'. kpi_key r' = kpi_key r) (v_teacher_roster ord current_date db))"
    unfolding kpi_member by blast
  have key: "(k_teacher_name kr, k_school_year kr, k_subject_area kr) = kpi_key r"
    unfolding kr by (simp add: kpi_row_of_def)
  have "kpi_group (v_teacher_roster ord current_date db) kr
          = filter (\<lambda>r'. kpi_key r' = kpi_key r) (v_teacher_roster ord current_date db)"
    unfolding kr by (rule kpi_group_of)
  with key kr show ?thesis by simp
qed

lemma kpi_row_aggregates:
  assumes "kr \<in> set (v_teacher_kpis ord current_date db)"
  shows "k_total_students kr = int (length (kpi_group (v_teacher_roster ord current_date db) kr))"
    and "k_assessed_students kr =
           int (length (filter (\<lambda>r. r_latest_score r \<noteq> None)
                  (kpi_group (v_teacher_roster ord current_date db) kr)))"
    and "k_median_days_since kr =
           percentile_cont (1 / 2)
             (List.map_filter r_days_since_assessment (kpi_group (v_teacher_roster ord current_date db) kr))"
    and "k_median_days_since kr = None \<longleftrightarrow>
           (\<forall>r \<in> set (kpi_group (v_teacher_roster ord current_date db) kr). r_days_since_assessment r = None)"
proof -
  let ?k = "(k_teacher_name kr, k_school_year kr, k_subject_area kr)"
  let ?g = "kpi_group (v_teacher_roster ord current_date db) kr"
  have kr: "kr = kpi_row_of ?k ?g" by (rule kpi_row_from_group [OF assms])
  from kpi_total [of ?k ?g] kr show "k_total_students kr = int (length ?g)" by simp
  from kpi_assessed [of ?k ?g] kr
  show "k_assessed_students kr = int (length (filter (\<lambda>r. r_latest_score r \<noteq> None) ?g))" by simp
  from kpi_median [of ?k ?g] kr
  show median: "k_median_days_since kr = percentile_cont (1 / 2) (List.map_filter r_days_since_assessment ?g)"
    by simp
  show "k_median_days_since kr = None \<longleftrightarrow> (\<forall>r \<in> set ?g. r_days_since_assessment r = None)"
    by (simp only: median percentile_cont_null map_filter_empty)
qed

lemma roster_row_counted_once:
  assumes "r \<in> set (v_teacher_roster ord current_date db)"
  shows "\<exists>kr \<in> set (v_teacher_kpis ord current_date db).
           r \<in> set (kpi_group (v_teacher_roster ord current_date db) kr)
           \<and> (\<forall>kr' \<in> set (v_teacher_kpis ord current_date db).
                r \<in> set (kpi_group (v_teacher_roster ord current_date db) kr') \<longrightarrow> kr' = kr)"
proof -
  let ?roster = "v_teacher_roster ord current_date db"
  let ?kr = "kpi_row_of (kpi_key r) (filter (\<lambda>r'. kpi_key r' = kpi_key r) ?roster)"
  from assms have member: "?kr \<in> set (v_teacher_kpis ord current_date db)"
    unfolding kpi_member by blast
  from assms have counted: "r \<in> set (kpi_group ?roster ?kr)"
    by (simp add: kpi_group_of)
  have "kr' = ?kr"
    if "kr' \<in> set (v_teacher_kpis ord current_date db)" "r \<in> set (kpi_group ?roster kr')" for kr'
  proof -
    from that(2) have key: "(k_teacher_name kr', k_school_year kr', k_subject_area kr') = kpi_key r"
      by (simp add: kpi_group_def)
    then have "kpi_group ?roster kr' = filter (\<lambda>r'. kpi_key r' = kpi_key r) ?roster"
      by (simp add: kpi_group_def)
    with kpi_row_from_group [OF that(1)] key show ?thesis by simp
  qed
  with member counted show ?thesis by blast
qed

text \<open>
  Claim C9, as the view computes it. The cohort of a row of \<^verbatim>\<open>v_teacher_kpis\<close> is made
  of the roster rows with its teacher, school year and subject. Every enrollment whose
  person exists has a roster row, and every roster row, whatever data it lacks, counts
  in the total of exactly one row of the view: the totals add up to the number of roster
  rows. In every row of the view the total is the number of roster rows of its cohort,
  the assessed count takes only those with a non-null latest score, and the median of
  the days since the assessment is taken over those with non-null days only and is null
  exactly when none has any. An enrollment without any assessment has a null subject in
  the roster: it counts in the total of the row of its teacher and year whose subject is
  null, and in no total of a row with a subject, and it counts neither as assessed nor
  in the median.
\<close>

theorem kpi_totals_and_numerators:
  assumes "admissible_order ord"
    and "e \<in> set (student_enrollments db)"
    and "\<exists>s \<in> set (students_core db). e_student_uuid e = Some (s_student_uuid s)"
  shows "(\<exists>r \<in> set (v_teacher_roster ord current_date db). r_enrollment_id r = e_enrollment_id e)
     \<and> (\<forall>r \<in> set (v_teacher_roster ord current_date db).
          \<exists>kr \<in> set (v_teacher_kpis ord current_date db).
            r \<in> set (kpi_group (v_teacher_roster ord current_date db) kr)
            \<and> (\<forall>kr' \<in> set (v_teacher_kpis ord current_date db).
                 r \<in> set (kpi_group (v_teacher_roster ord current_date db) kr') \<longrightarrow> kr' = kr))
     \<and> sum_list (map k_total_students (v_teacher_kpis ord current_date db))
         = int (length (v_teacher_roster ord current_date db))
     \<and> (\<forall>kr \<in> set (v_teacher_kpis ord current_date db).
          k_total_students kr = int (length (kpi_group (v_teacher_roster ord current_date db) kr))
          \<and> k_assessed_students kr =
              int (length (filter (\<lambda>r. r_latest_score r \<noteq> None)
                     (kpi_group (v_teacher_roster ord current_date db) kr)))
          \<and> k_median_days_since kr =
              percentile_cont (1 / 2)
                (List.map_filter r_days_since_assessment
                   (kpi_group (v_teacher_roster ord current_date db) kr))
          \<and> (k_median_days_since kr = None \<longleftrightarrow>
               (\<forall>r \<in> set (kpi_group (v_teacher_roster ord current_date db) kr).
                  r_days_since_assessment r = None)))
     \<and> ((\<forall>a \<in> set (assessments db). a_enrollment_id a \<noteq> Some (e_enrollment_id e)) \<longrightarrow>
          (\<forall>kr \<in> set (v_teacher_kpis ord current_date db).
             \<forall>r \<in> set (kpi_group (v_teacher_roster ord current_date db) kr).
               r_enrollment_id r = e_enrollment_id e \<longrightarrow>
                 k_subject_area kr = None \<and> r_latest_score r = None
                 \<and> r_days_since_assessment r = None))"
proof -
  let ?roster = "v_teacher_roster ord current_date db"
  let ?kpis = "v_teacher_kpis ord current_date db"
  have present: "\<exists>r \<in> set ?roster. r_enrollment_id r = e_enrollment_id e"
    by (rule enrollment_in_roster [OF assms(2,3)])
  have once: "\<forall>r \<in> set ?roster. \<exists>kr \<in> set ?kpis. r \<in> set (kpi_group ?roster kr)
            \<and> (\<forall>kr' \<in> set ?kpis. r \<in> set (kpi_group ?roster kr') \<longrightarrow> kr' = kr)"
    using roster_row_counted_once by blast
  have aggregates: "\<forall>kr \<in> set ?kpis.
          k_total_students kr = int (length (kpi_group ?roster kr))
          \<and> k_assessed_students kr =
              int (length (filter (\<lambda>r. r_latest_score r \<noteq> None) (kpi_group ?roster kr)))
          \<and> k_median_days_since kr =
              percentile_cont (1 / 2) (List.map_filter r_days_since_assessment (kpi_group ?roster kr))
          \<and> (k_median_days_since kr = None \<longleftrightarrow>
               (\<forall>r \<in> set (kpi_group ?roster kr). r_days_since_assessment r = None))"
    using kpi_row_aggregates by blast
  have unassessed: "(\<forall>a \<in> set (assessments db). a_enrollment_id a \<noteq> Some (e_enrollment_id e)) \<longrightarrow>
          (\<forall>kr \<in> set ?kpis. \<forall>r \<in> set (kpi_group ?roster kr).
               r_enrollment_id r = e_enrollment_id e \<longrightarrow>
                 k_subject_area kr = None \<and> r_latest_score r = None
                 \<and> r_days_since_assessment r = None)"
  proof (intro impI ballI)
    fix kr r
    assume none: "\<forall>a \<in> set (assessments db). a_enrollment_id a \<noteq> Some (e_enrollment_id e)"
      and r: "r \<in> set (kpi_group ?roster kr)" and id: "r_enrollment_id r = e_enrollment_id e"
    from r have member: "r \<in> set ?roster" and key: "r_subject_area r = k_subject_area kr"
      by (simp_all add: kpi_group_def kpi_key_def)
    from unassessed_roster_row [OF assms(1) none member id] key
    show "k_subject_area kr = None \<and> r_latest_score r = None \<and> r_days_since_assessment r = None"
      by simp
  qed
  from present once kpi_totals_sum [of ord current_date db] aggregates unassessed
  show ?thesis by (intro conjI)
qed

text \<open>
  The theorem at work, on a class of two enrollments of one teacher and year: the first
  has a Math assessment of 95 days ago, the second has no assessment. The second is
  counted in the row whose subject is null, which has no assessed enrollment and a null
  median; the Math row has total 1, assessed 1 and median 95.
\<close>

theorem kpi_totals_and_numerators_witness:
  "admissible_order order_by_recency
   \<and> enrollment_2 \<in> set (student_enrollments (class_db [math_assessment ''Fall'' (Some 64) 5 1]))
   \<and> e_student_uuid enrollment_2 = Some (s_student_uuid person_8)
   \<and> map a_enrollment_id (assessments (class_db [math_assessment ''Fall'' (Some 64) 5 1])) = [Some 1]
   \<and> e_enrollment_id enrollment_2 = 2
   \<and> (\<exists>kr \<in> set (v_teacher_kpis order_by_recency 100 (class_db [math_assessment ''Fall'' (Some 64) 5 1])).
        \<exists>r \<in> set (kpi_group
                    (v_teacher_roster order_by_recency 100 (class_db [math_assessment ''Fall'' (Some 64) 5 1]))
                    kr).
          r_enrollment_id r = 2 \<and> k_subject_area kr = None \<and> r_latest_score r = None
          \<and> r_days_since_assessment r = None
          \<and> k_total_students kr =
              int (length (kpi_group
                (v_teacher_roster order_by_recency 100 (class_db [math_assessment ''Fall'' (Some 64) 5 1]))
                kr)))
   \<and> map (\<lambda>kr. (k_total_students kr, k_assessed_students kr, k_median_days_since kr))
       (filter (\<lambda>kr. (k_teacher_name kr, k_school_year kr, k_subject_area kr)
                        = (Some ''Garcia'', Some ''2024-25'', None))
          (v_teacher_kpis order_by_recency 100 (class_db [math_assessment ''Fall'' (Some 64) 5 1])))
      = [(1, 0, None)]
   \<and> map (\<lambda>kr. (k_total_students kr, k_assessed_students kr, k_median_days_since kr))
       (filter (\<lambda>kr. (k_teacher_name kr, k_school_year kr, k_subject_area kr)
                        = (Some ''Garcia'', Some ''2024-25'', Some ''Math''))
          (v_teacher_kpis order_by_recency 100 (class_db [math_assessment ''Fall'' (Some 64) 5 1])))
      = [(1, 1, Some 95)]"
proof -
  let ?db = "class_db [math_assessment ''Fall'' (Some 64) 5 1]"
  let ?roster = "v_teacher_roster order_by_recency 100 ?db"
  let ?kpis = "v_teacher_kpis order_by_recency 100 ?db"
  have e: "enrollment_2 \<in> set (student_enrollments ?db)" by (simp add: class_db_def)
  have uuid: "e_student_uuid enrollment_2 = Some (s_student_uuid person_8)"
    by (simp add: enrollment_2_def person_8_def)
  then have fk: "\<exists>s \<in> set (students_core ?db). e_student_uuid enrollment_2 = Some (s_student_uuid s)"
    by (simp add: class_db_def)
  have rows: "map a_enrollment_id (assessments ?db) = [Some 1]"
    by (simp add: class_db_def math_assessment_def)
  have id: "e_enrollment_id enrollment_2 = 2" by (simp add: enrollment_2_def)
  have none: "\<forall>a \<in> set (assessments ?db). a_enrollment_id a \<noteq> Some (e_enrollment_id enrollment_2)"
    by (simp add: class_db_def math_assessment_def id)
  note facts = kpi_totals_and_numerators [OF order_by_recency_admissible e fk, of 100]
  from facts obtain r where r: "r \<in> set ?roster" "r_enrollment_id r = 2"
    unfolding id by blast
  from facts r(1) obtain kr where kr: "kr \<in> set ?kpis" "r \<in> set (kpi_group ?roster kr)"
    by blast
  from facts kr(1) have total: "k_total_students kr = int (length (kpi_group ?roster kr))"
    by blast
  from facts none kr r(2)
  have "k_subject_area kr = None \<and> r_latest_score r = None \<and> r_days_since_assessment r = None"
    unfolding id by blast
  with kr r(2) total
  have counted: "\<exists>kr \<in> set ?kpis. \<exists>r \<in> set (kpi_group ?roster kr).
          r_enrollment_id r = 2 \<and> k_subject_area kr = None \<and> r_latest_score r = None
          \<and> r_days_since_assessment r = None
          \<and> k_total_students kr = int (length (kpi_group ?roster kr))"
    by blast
  have view: "map (\<lambda>kr. (k_total_students kr, k_assessed_students kr, k_median_days_since kr))
       (filter (\<lambda>kr. (k_teacher_name kr, k_school_year kr, k_subject_area kr)
                        = (Some ''Garcia'', Some ''2024-25'', None)) ?kpis)
      = [(1, 0, None)]"
    by code_simp
  have math: "map (\<lambda>kr. (k_total_students kr, k_assessed_students kr, k_median_days_since kr))
       (filter (\<lambda>kr. (k_teacher_name kr, k_school_year kr, k_subject_area kr)
                        = (Some ''Garcia'', Some ''2024-25'', Some ''Math'')) ?kpis)
      = [(1, 1, Some 95)]"
    by code_simp
  from order_by_recency_admissible e uuid rows id counted view math show ?thesis by (intro conjI)
qed

text \<open>
  The claim has every enrollment of the cohort in the denominator. The two enrollments
  above are one teacher's class of one year, and the Math row of the view has total 1,
  assessed 1 and 100 percent assessed: the enrollment without assessments is not in its
  total, only in that of the row with the null subject.
\<close>

theorem kpi_total_counterexample:
  "map (\<lambda>e. (e_enrollment_id e, e_teacher_name e, e_school_year e))
     (student_enrollments (class_db [math_assessment ''Fall'' (Some 64) 5 1]))
      = [(1, Some ''Garcia'', Some ''2024-25''), (2, Some ''Garcia'', Some ''2024-25'')]
   \<and> map (\<lambda>r. (r_enrollment_id r, r_subject_area r))
       (v_teacher_roster order_by_recency 100 (class_db [math_assessment ''Fall'' (Some 64) 5 1]))
      = [(1, Some ''Math''), (2, None)]
   \<and> map (\<lambda>kr. (k_total_students kr, k_assessed_students kr, k_assessed_pct kr))
       (filter (\<lambda>kr. (k_teacher_name kr, k_school_year kr, k_subject_area kr)
                        = (Some ''Garcia'', Some ''2024-25'', Some ''Math''))
          (v_teacher_kpis order_by_recency 100 (class_db [math_assessment ''Fall'' (Some 64) 5 1])))
      = [(1, 1, Some 100)]
   \<and> map (\<lambda>kr. (k_total_students kr, k_assessed_students kr, k_assessed_pct kr))
       (filter (\<lambda>kr. (k_teacher_name kr, k_school_year kr, k_subject_area kr)
                        = (Some ''Garcia'', Some ''2024-25'', None))
          (v_teacher_kpis order_by_recency 100 (class_db [math_assessment ''Fall'' (Some 64) 5 1])))
      = [(1, 0, Some 0)]
   \<and> length (v_teacher_kpis order_by_recency 100 (class_db [math_assessment ''Fall'' (Some 64) 5 1])) = 2"
proof -
  let ?db = "class_db [math_assessment ''Fall'' (Some 64) 5 1]"
  have enrolled: "map (\<lambda>e. (e_enrollment_id e, e_teacher_name e, e_school_year e)) (student_enrollments ?db)
      = [(1, Some ''Garcia'', Some ''2024-25''), (2, Some ''Garcia'', Some ''2024-25'')]"
    by (simp add: class_db_def enrollment_1_def enrollment_2_def)
  have roster: "map (\<lambda>r. (r_enrollment_id r, r_subject_area r)) (v_teacher_roster order_by_recency 100 ?db)
      = [(1, Some ''Math''), (2, None)]"
    by code_simp
  have math: "map (\<lambda>kr. (k_total_students kr, k_assessed_students kr, k_assessed_pct kr))
       (filter (\<lambda>kr. (k_teacher_name kr, k_school_year kr, k_subject_area kr)
                        = (Some ''Garcia'', Some ''2024-25'', Some ''Math''))
          (v_teacher_kpis order_by_recency 100 ?db))
      = [(1, 1, Some 100)]"
    by code_simp
  have no_subject: "map (\<lambda>kr. (k_total_students kr, k_assessed_students kr, k_assessed_pct kr))
       (filter (\<lambda>kr. (k_teacher_name kr, k_school_year kr, k_subject_area kr)
                        = (Some ''Garcia'', Some ''2024-25'', None))
          (v_teacher_kpis order_by_recency 100 ?db))
      = [(1, 0, Some 0)]"
    by code_simp
  have two: "length (v_teacher_kpis order_by_recency 100 ?db) = 2" by code_simp
  from enrolled roster math no_subject two show ?thesis by (intro conjI)
qed


section \<open>The latest assessment\<close>

text \<open>
  What \<^verbatim>\<open>latest\<close> selects: for each enrollment and subject exactly one row, the first
  in the ORDER BY among all of its assessments, scored or not.
\<close>

lemma latest_lookup:
  assumes adm: "admissible_order ord"
  shows "filter (\<lambda>l. (l_enrollment_id l, l_subject_area l) = k) (latest ord rows) =
     (case ord (filter (\<lambda>a. latest_key a = k \<and> a_enrollment_id a \<noteq> None) rows) of
        [] \<Rightarrow> []
      | a # others \<Rightarrow> [latest_of a])"
proof -
  let ?kept = "filter (\<lambda>a. a_enrollment_id a \<noteq> None) rows"
  let ?f = "\<lambda>(k, g). case ord g of [] \<Rightarrow> [] | a # others \<Rightarrow> [latest_of a]"
  let ?key = "\<lambda>l. (l_enrollment_id l, l_subject_area l)"
  have latest: "latest ord rows = concat (map ?f (group_by latest_key ?kept))"
    by (simp add: latest_def holds_is_not_null del: not_None_eq)
  have members: "?key x = k'"
    if "(k', g) \<in> set (group_by latest_key ?kept)" "x \<in> set (?f (k', g))" for k' g x
  proof -
    have g: "g = filter (\<lambda>r. latest_key r = k') ?kept"
      using group_by_member [OF that(1)] by (rule conjunct1)
    from that(2) have x: "x \<in> set (case ord g of [] \<Rightarrow> [] | a # others \<Rightarrow> [latest_of a])"
      by (simp only: prod.case)
    then obtain a others where sorted: "ord g = a # others" and xa: "x = latest_of a"
      by (cases "ord g") simp_all
    from sorted have "a \<in> set (ord g)" by simp
    then have "a \<in> set g" by (simp only: admissible_set [OF adm])
    with g have "latest_key a = k'" by simp
    with xa show ?thesis by (simp add: latest_of_def latest_key_def)
  qed
  have part: "filter (\<lambda>r. latest_key r = k) ?kept
                = filter (\<lambda>a. latest_key a = k \<and> a_enrollment_id a \<noteq> None) rows"
    by (simp add: conj_commute del: not_None_eq)
  have "filter (\<lambda>x. ?key x = k) (latest ord rows)
          = concat (map ?f (filter (\<lambda>(k', g). k' = k) (group_by latest_key ?kept)))"
    unfolding latest by (rule filter_concat_groups) (rule members)
  also have "\<dots> = concat (map ?f (if k \<in> latest_key ` set ?kept
                          then [(k, filter (\<lambda>r. latest_key r = k) ?kept)] else []))"
    by (simp only: group_by_lookup)
  also have "\<dots> = ?f (k, filter (\<lambda>r. latest_key r = k) ?kept)"
  proof (cases "k \<in> latest_key ` set ?kept")
    case True
    then show ?thesis by simp
  next
    case False
    then have "filter (\<lambda>r. latest_key r = k) ?kept = []"
      by (auto simp: filter_empty_conv)
    with False show ?thesis by (simp add: admissible_nil [OF adm])
  qed
  finally show ?thesis by (simp only: part prod.case)
qed

text \<open>
  Claim C1 at a failing input. The claim has the selector choose among the rows with a
  non-null normalized score. The CTE \<^verbatim>\<open>latest\<close> has no such filter: of a Fall
  assessment with score 55 and a later Winter assessment without a score it selects the
  Winter one, so the roster reports a null latest score and the tier is Unknown, although
  a scored row exists. The CTE \<^verbatim>\<open>ranked\<close> of \<^verbatim>\<open>v_growth_last_two\<close>, with the same
  ORDER BY, does filter on the score and reports 55 as the latest score of the same rows.
  The two rows do not tie, so this is what the views return whatever ordering of tied
  rows PostgreSQL chooses.
\<close>

theorem latest_takes_unscored_row:
  assumes "admissible_order ord"
  shows "filter (\<lambda>l. (l_enrollment_id l, l_subject_area l) = k) (latest ord rows) =
     (case ord (filter (\<lambda>a. latest_key a = k \<and> a_enrollment_id a \<noteq> None) rows) of
        [] \<Rightarrow> []
      | a # others \<Rightarrow> [latest_of a])
   \<and> map (\<lambda>l. (l_latest_period l, l_latest_score l, l_latest_date l))
       (latest ord [math_assessment ''Fall'' (Some 55) 10 1, math_assessment ''Winter'' None 20 2])
      = [(''Winter'', None, Some 20)]
   \<and> map (\<lambda>s. (ss_latest_score s, ss_support_status s, ss_tier s))
       (v_support_status ord 100
          (example_db [math_assessment ''Fall'' (Some 55) 10 1, math_assessment ''Winter'' None 20 2] [] []))
      = [(None, Status_Unknown, Unknown)]
   \<and> map g_latest_score
       (v_growth_last_two ord [math_assessment ''Fall'' (Some 55) 10 1, math_assessment ''Winter'' None 20 2])
      = [Some 55]"
proof -
  let ?rows = "[math_assessment ''Fall'' (Some 55) 10 1, math_assessment ''Winter'' None 20 2]"
  have no_tie: "inj_on recency_key (set ?rows)"
    by (simp add: recency_key_def math_assessment_def desc_nulls_last_def)
  have "assessments (example_db ?rows [] []) = ?rows" by (simp add: example_db_def)
  with no_tie have no_tie_db: "inj_on recency_key (set (assessments (example_db ?rows [] [])))"
    by simp
  have "map (\<lambda>l. (l_latest_period l, l_latest_score l, l_latest_date l)) (latest order_by_recency ?rows)
      = [(''Winter'', None, Some 20)]"
    by code_simp
  then have selected: "map (\<lambda>l. (l_latest_period l, l_latest_score l, l_latest_date l)) (latest ord ?rows)
      = [(''Winter'', None, Some 20)]"
    by (simp only: latest_unique [OF assms no_tie])
  have "map (\<lambda>s. (ss_latest_score s, ss_support_status s, ss_tier s))
       (v_support_status order_by_recency 100 (example_db ?rows [] []))
      = [(None, Status_Unknown, Unknown)]"
    by code_simp
  then have tiered: "map (\<lambda>s. (ss_latest_score s, ss_support_status s, ss_tier s))
       (v_support_status ord 100 (example_db ?rows [] []))
      = [(None, Status_Unknown, Unknown)]"
    by (simp only: support_unique [OF assms no_tie_db])
  have "map g_latest_score (v_growth_last_two order_by_recency ?rows) = [Some 55]"
    by code_simp
  then have sibling: "map g_latest_score (v_growth_last_two ord ?rows) = [Some 55]"
    by (simp only: growth_unique [OF assms no_tie])
  from latest_lookup [OF assms, of k rows] selected tiered sibling show ?thesis by (intro conjI)
qed

text \<open>The theorem at work, with the stable sort as the ordering.\<close>

theorem latest_takes_unscored_row_witness:
  "admissible_order order_by_recency
   \<and> map (\<lambda>l. (l_latest_period l, l_latest_score l, l_latest_date l))
       (latest order_by_recency
          [math_assessment ''Fall'' (Some 55) 10 1, math_assessment ''Winter'' None 20 2])
      = [(''Winter'', None, Some 20)]
   \<and> map g_latest_score
       (v_growth_last_two order_by_recency
          [math_assessment ''Fall'' (Some 55) 10 1, math_assessment ''Winter'' None 20 2])
      = [Some 55]"
proof -
  from latest_takes_unscored_row [OF order_by_recency_admissible]
  have "map (\<lambda>l. (l_latest_period l, l_latest_score l, l_latest_date l))
       (latest order_by_recency
          [math_assessment ''Fall'' (Some 55) 10 1, math_assessment ''Winter'' None 20 2])
      = [(''Winter'', None, Some 20)]"
    and "map g_latest_score
       (v_growth_last_two order_by_recency
          [math_assessment ''Fall'' (Some 55) 10 1, math_assessment ''Winter'' None 20 2])
      = [Some 55]"
    by blast+
  with order_by_recency_admissible show ?thesis by (intro conjI)
qed

end
